theory Spec2Isabelle
  imports Complex_Main "HOL-Library.AList" "HOL-Library.Sublist"
begin

section \<open>Data model: system_metrics/alerts/thresholds.py and realtime/events.py\<close>

text \<open>
  Clock readings and durations are Python floats and are modelled as \<open>real\<close>. A threshold
  and a metric value can be an int or a float (the defaults of the network monitor are int
  literals), which print differently: they are values of \<open>pynum\<close>, compared by their numeric
  value. A Python \<open>dict\<close> is an association list:
  its keys are distinct and \<open>AList.update\<close> keeps a present key in place and puts a new
  key last, which is the insertion order a \<open>dict\<close> iterates in. An \<open>AlertState\<close> holds its
  \<open>ThresholdConfig\<close> by value; in the source it is a reference into the registry, and
  the only place that writes to a registered config (\<open>set_threshold\<close>) replaces the state
  that refers to it in the same call.
\<close>

datatype AlertSeverity = INFO | WARNING | CRITICAL

datatype AlertType =
    CPU_USAGE_HIGH | CPU_USAGE_VERY_HIGH | CPU_CORE_USAGE_HIGH
  | CPU_USAGE_SUSTAINED | CPU_TEMPERATURE_HIGH | PROCESS_CPU_USAGE_HIGH

datatype NetworkAlertType =
    BANDWIDTH_USAGE_HIGH | BANDWIDTH_USAGE_VERY_HIGH | DOWNLOAD_RATE_HIGH
  | UPLOAD_RATE_HIGH | TOTAL_BANDWIDTH_SUSTAINED | CONNECTION_COUNT_HIGH
  | INTERFACE_ERROR_RATE_HIGH | PROCESS_BANDWIDTH_HIGH | WIFI_SIGNAL_LOW

datatype pynum = PyInt int | PyFloat real

fun num_val :: "pynum \<Rightarrow> real" where
  "num_val (PyInt i) = of_int i"
| "num_val (PyFloat x) = x"

text \<open>\<open>a + b\<close>: an int when both are ints, a float otherwise.\<close>

fun num_add :: "pynum \<Rightarrow> pynum \<Rightarrow> pynum" where
  "num_add (PyInt a) (PyInt b) = PyInt (a + b)"
| "num_add a b = PyFloat (num_val a + num_val b)"

record 'ty ThresholdConfig =
  threshold :: pynum
  duration_seconds :: real
  severity :: AlertSeverity
  alert_type :: 'ty
  alert_message :: string
  check_interval :: real
  cooldown_minutes :: real

record 'ty AlertState =
  config :: "'ty ThresholdConfig"
  exceeded_since :: "real option"
  last_alert_time :: real
  current_value :: pynum
  is_active :: bool

text \<open>The dataclass constructors with their defaults (\<open>check_interval = 5.0\<close>,
  \<open>cooldown_minutes = 10.0\<close>; \<open>exceeded_since = None\<close>, \<open>last_alert_time = 0\<close>,
  \<open>current_value = 0\<close>, \<open>is_active = False\<close>).\<close>

definition new_config ::
  "pynum \<Rightarrow> real \<Rightarrow> AlertSeverity \<Rightarrow> 'ty \<Rightarrow> string \<Rightarrow> 'ty ThresholdConfig" where
  "new_config th dur sev ty msg =
     \<lparr>threshold = th, duration_seconds = dur, severity = sev, alert_type = ty,
      alert_message = msg, check_interval = 5, cooldown_minutes = 10\<rparr>"

definition new_state :: "'ty ThresholdConfig \<Rightarrow> 'ty AlertState" where
  "new_state cfg =
     \<lparr>config = cfg, exceeded_since = None, last_alert_time = 0, current_value = PyInt 0,
      is_active = False\<rparr>"

datatype MetricUpdateEvent =
    METRICS_UPDATED | COLLECTION_ERROR | CPU_OVERALL_UPDATED | CPU_CORES_UPDATED
  | CPU_PROCESSES_UPDATED | MEMORY_UPDATED | DISK_UPDATED | PERFORMANCE_ALERT
  | THRESHOLD_EXCEEDED

record 'd MetricEvent =
  event_type :: MetricUpdateEvent
  timestamp :: real
  source :: string
  data :: "'d option"
  message :: string

text \<open>The \<open>alert_data\<close> dictionary of \<open>_generate_alert\<close>; a key that the source adds
  only for some alerts is an optional field. The enum members stand for their
  \<open>.name\<close> strings.\<close>

record 'ty AlertData =
  data_threshold :: pynum
  data_current_value :: pynum
  data_duration_seconds :: real
  data_alert_type :: 'ty
  data_severity :: AlertSeverity
  data_core_id :: "int option"
  data_pid :: "int option"
  data_process_name :: "string option"
  data_interface_name :: "string option"

section \<open>Rendering numbers and substituting placeholders\<close>

text \<open>\<open>str\<close> of a Python int: its decimal digits, after a minus sign when it is
  negative.\<close>

definition digit_char :: "nat \<Rightarrow> char" where
  "digit_char d = ''0123456789'' ! (d mod 10)"

fun str_nat :: "nat \<Rightarrow> string" where
  "str_nat n = (if n < 10 then [digit_char n] else str_nat (n div 10) @ [digit_char (n mod 10)])"

declare str_nat.simps [simp del]

definition str_int :: "int \<Rightarrow> string" where
  "str_int i = (if i < 0 then CHR ''-'' # str_nat (nat (- i)) else str_nat (nat i))"

text \<open>
  What Python computes on a float when a message is rendered is not code of this
  repository: \<open>str(x)\<close>, \<open>round(x, 1)\<close> and the format \<open>:.2f\<close> read the binary
  representation of \<open>x\<close>. The model takes the three functions as a parameter \<open>py\<close> and says
  nothing about their values.
\<close>

record Python =
  float_str :: "real \<Rightarrow> string"
  float_round1 :: "real \<Rightarrow> real"
  float_format_2f :: "real \<Rightarrow> string"

text \<open>\<open>str(n)\<close> and \<open>round(n, 1)\<close> of a number: \<open>round\<close> returns an int unchanged.\<close>

definition str_num :: "Python \<Rightarrow> pynum \<Rightarrow> string" where
  "str_num py n = (case n of PyInt i \<Rightarrow> str_int i | PyFloat x \<Rightarrow> float_str py x)"

definition round_num1 :: "Python \<Rightarrow> pynum \<Rightarrow> pynum" where
  "round_num1 py n = (case n of PyInt i \<Rightarrow> PyInt i | PyFloat x \<Rightarrow> PyFloat (float_round1 py x))"

text \<open>\<open>str.replace(old, new)\<close> for a non-empty \<open>old\<close>: every occurrence, left to right,
  without rescanning the replacement. The callers pass \<open>{name}\<close> only.\<close>

function str_replace :: "string \<Rightarrow> string \<Rightarrow> string \<Rightarrow> string" where
  "str_replace old new [] = []"
| "str_replace old new (c # cs) =
     (if old \<noteq> [] \<and> prefix old (c # cs)
      then new @ str_replace old new (drop (length old) (c # cs))
      else c # str_replace old new cs)"
  by pat_completeness auto
termination
  by (relation "measure (\<lambda>(old, new, s). length s)") (auto simp: neq_Nil_conv)

text \<open>The loop \<open>for var_name, var_value in format_vars.items()\<close>: a variable whose
  value is \<open>None\<close> is skipped and its placeholder stays in the message.\<close>

fun substitute :: "(string \<times> string option) list \<Rightarrow> string \<Rightarrow> string" where
  "substitute [] msg = msg"
| "substitute ((var_name, None) # vars) msg = substitute vars msg"
| "substitute ((var_name, Some var_value) # vars) msg =
     substitute vars (str_replace (''{'' @ var_name @ ''}'') var_value msg)"

text \<open>\<open>time.time() - (state.exceeded_since or time.time())\<close>: \<open>None\<close> and \<open>0.0\<close> are
  both false for \<open>or\<close>. The clock readings taken within one tick are a single
  instant \<open>now\<close>.\<close>

definition exceeded_duration :: "real \<Rightarrow> real option \<Rightarrow> real" where
  "exceeded_duration now es =
     now - (case es of None \<Rightarrow> now | Some t \<Rightarrow> if t = 0 then now else t)"

text \<open>\<open>CPUThresholdMonitor._format_alert_message\<close>.\<close>

definition format_alert_message ::
  "Python \<Rightarrow> real \<Rightarrow> AlertType AlertState \<Rightarrow> int option \<Rightarrow> int option \<Rightarrow> string option
     \<Rightarrow> string" where
  "format_alert_message py now state core_id pid process_name =
     (let minutes = float_round1 py (exceeded_duration now (exceeded_since state) / 60);
          format_vars =
            [(''threshold'', Some (str_num py (threshold (config state)))),
             (''value'', Some (str_num py (round_num1 py (current_value state)))),
             (''duration'', Some (float_str py minutes)),
             (''core_id'', map_option str_int core_id),
             (''pid'', map_option str_int pid),
             (''process_name'', process_name)]
      in substitute format_vars (alert_message (config state)))"

text \<open>\<open>NetworkThresholdMonitor._format_value_with_unit\<close> and
  \<open>NetworkThresholdMonitor._format_alert_message\<close>. The quotient \<open>value/1_000_000\<close> is a
  float.\<close>

definition format_value_with_unit :: "Python \<Rightarrow> pynum \<Rightarrow> string" where
  "format_value_with_unit py v =
     (if num_val v > 1000000 then float_format_2f py (num_val v / 1000000) @ '' MB/s''
      else if num_val v > 1000 then float_format_2f py (num_val v / 1000) @ '' KB/s''
      else str_num py v)"

definition net_format_alert_message ::
  "Python \<Rightarrow> real \<Rightarrow> NetworkAlertType AlertState \<Rightarrow> string option \<Rightarrow> string option
     \<Rightarrow> string" where
  "net_format_alert_message py now state interface_name process_name =
     (let minutes = float_round1 py (exceeded_duration now (exceeded_since state) / 60);
          format_vars =
            [(''threshold'', Some (format_value_with_unit py (threshold (config state)))),
             (''value'', Some (format_value_with_unit py (current_value state))),
             (''duration'', Some (float_str py minutes)),
             (''interface_name'', interface_name),
             (''process_name'', process_name)]
      in substitute format_vars (alert_message (config state)))"

section \<open>Alert generation and the per-state check\<close>

text \<open>\<open>alert_message or default_message\<close> and \<open>process_name or "unknown"\<close>: \<open>None\<close> and
  the empty string are both false.\<close>

definition str_or :: "string option \<Rightarrow> string \<Rightarrow> string" where
  "str_or s dflt = (case s of None \<Rightarrow> dflt | Some v \<Rightarrow> if v = [] then dflt else v)"

text \<open>\<open>CPUThresholdMonitor._generate_alert\<close>: the event that is published to the
  dispatcher (and printed).\<close>

definition generate_alert ::
  "Python \<Rightarrow> real \<Rightarrow> AlertType AlertState \<Rightarrow> int option \<Rightarrow> int option \<Rightarrow> string option
     \<Rightarrow> AlertType AlertData MetricEvent" where
  "generate_alert py now state core_id pid process_name =
     \<lparr>event_type = THRESHOLD_EXCEEDED, timestamp = now, source = ''CPUThresholdMonitor'',
      data = Some
        \<lparr>data_threshold = threshold (config state),
         data_current_value = current_value state,
         data_duration_seconds = exceeded_duration now (exceeded_since state),
         data_alert_type = alert_type (config state),
         data_severity = severity (config state),
         data_core_id = core_id,
         data_pid = pid,
         data_process_name =
           (if pid = None then None else Some (str_or process_name ''unknown'')),
         data_interface_name = None\<rparr>,
      message = format_alert_message py now state core_id pid process_name\<rparr>"

text \<open>\<open>NetworkThresholdMonitor._generate_alert\<close>.\<close>

definition net_generate_alert ::
  "Python \<Rightarrow> real \<Rightarrow> NetworkAlertType AlertState \<Rightarrow> string option \<Rightarrow> string option
     \<Rightarrow> NetworkAlertType AlertData MetricEvent" where
  "net_generate_alert py now state interface_name process_name =
     \<lparr>event_type = THRESHOLD_EXCEEDED, timestamp = now, source = ''NetworkThresholdMonitor'',
      data = Some
        \<lparr>data_threshold = threshold (config state),
         data_current_value = current_value state,
         data_duration_seconds = exceeded_duration now (exceeded_since state),
         data_alert_type = alert_type (config state),
         data_severity = severity (config state),
         data_core_id = None,
         data_pid = None,
         data_process_name = process_name,
         data_interface_name = interface_name\<rparr>,
      message = net_format_alert_message py now state interface_name process_name\<rparr>"

text \<open>
  The block that every check of both monitors repeats after it has stored
  \<open>state.current_value\<close> and decided whether the threshold is exceeded
  (thresholds.py lines 350-370, 405-422, 465-482, 542-559; network_thresholds.py lines
  424-444, 490-502, 511-523, 562-574). \<open>gen\<close> is the call of \<open>_generate_alert\<close> with the
  caller's entity arguments, \<open>cfg\<close> the config the caller compares against, \<open>t\<close> the
  caller's \<open>current_time\<close>. The result is the state after the block and the alerts
  generated by it (none or one).
\<close>

definition check_state ::
  "('ty AlertState \<Rightarrow> 'ev) \<Rightarrow> 'ty ThresholdConfig \<Rightarrow> bool \<Rightarrow> real \<Rightarrow> 'ty AlertState
     \<Rightarrow> 'ty AlertState \<times> 'ev list" where
  "check_state gen cfg exceeded t state =
     (if exceeded then
        (let since = (case exceeded_since state of None \<Rightarrow> t | Some e \<Rightarrow> e);
             state1 = state\<lparr>exceeded_since := Some since\<rparr>;
             time_exceeded = t - since
         in if time_exceeded \<ge> duration_seconds cfg \<and> \<not> is_active state1
            then (if t - last_alert_time state1 \<ge> cooldown_minutes cfg * 60
                  then (state1\<lparr>last_alert_time := t, is_active := True\<rparr>, [gen state1])
                  else (state1, []))
            else (state1, []))
      else (state\<lparr>exceeded_since := None, is_active := False\<rparr>, []))"

text \<open>The loops \<open>for name, state in states.items()\<close> that run the block on every state of
  a dictionary whose name passes \<open>sel\<close>, with the comparison \<open>value >= config.threshold\<close>.\<close>

fun check_each ::
  "(string \<Rightarrow> bool) \<Rightarrow> ('ty AlertState \<Rightarrow> 'ev) \<Rightarrow> pynum \<Rightarrow> real
     \<Rightarrow> (string \<times> 'ty AlertState) list \<Rightarrow> (string \<times> 'ty AlertState) list \<times> 'ev list" where
  "check_each sel gen v t [] = ([], [])"
| "check_each sel gen v t ((name, state) # rest) =
     (let (state', evs) =
            (if sel name
             then check_state gen (config state) (num_val v \<ge> num_val (threshold (config state))) t
                    (state\<lparr>current_value := v\<rparr>)
             else (state, []));
          (rest', evs') = check_each sel gen v t rest
      in ((name, state') # rest', evs @ evs'))"

section \<open>CPUThresholdMonitor\<close>

record CPUThresholdMonitor =
  thresholds :: "(string \<times> AlertType ThresholdConfig) list"
  core_thresholds :: "(int \<times> (string \<times> AlertType ThresholdConfig) list) list"
  process_thresholds :: "(string \<times> AlertType ThresholdConfig) list"
  alert_states :: "(string \<times> AlertType AlertState) list"
  core_alert_states :: "(int \<times> (string \<times> AlertType AlertState) list) list"
  process_alert_states :: "(int \<times> (string \<times> AlertType AlertState) list) list"
  cpu_history :: "(real \<times> pynum) list"
  running :: bool
  published :: "AlertType AlertData MetricEvent list"

text \<open>\<open>__init__\<close>. \<open>published\<close> is the queue of the dispatcher, as far as this monitor
  fills it.\<close>

definition cpu_monitor_init :: CPUThresholdMonitor where
  "cpu_monitor_init =
     \<lparr>thresholds =
        [(''cpu_usage_high'', new_config (PyFloat 80) 60 WARNING CPU_USAGE_HIGH
            ''CPU usage has been above {threshold}% for {duration} minutes''),
         (''cpu_usage_very_high'', new_config (PyFloat 90) 30 CRITICAL CPU_USAGE_VERY_HIGH
            ''CPU usage is critically high at {value}%, exceeding {threshold}%''),
         (''cpu_usage_sustained'', new_config (PyFloat 70) 600 WARNING CPU_USAGE_SUSTAINED
            ''CPU has been under sustained load (>{threshold}%) for {duration} minutes'')],
      core_thresholds = [],
      process_thresholds =
        [(''process_cpu_high'', new_config (PyFloat 50) 120 WARNING PROCESS_CPU_USAGE_HIGH
            ''Process {process_name} (PID {pid}) has been using >{threshold}% CPU for {duration} minutes'')],
      alert_states = [], core_alert_states = [], process_alert_states = [],
      cpu_history = [], running = False, published = []\<rparr>"

definition set_threshold ::
  "string \<Rightarrow> pynum \<Rightarrow> real \<Rightarrow> AlertSeverity \<Rightarrow> string option \<Rightarrow> CPUThresholdMonitor
     \<Rightarrow> CPUThresholdMonitor" where
  "set_threshold name th dur sev msg m =
     (let cfg' =
            (case map_of (thresholds m) name of
               None \<Rightarrow>
                 new_config th dur sev
                   (if prefix ''cpu_'' name then CPU_USAGE_HIGH
                    else if prefix ''process_'' name then PROCESS_CPU_USAGE_HIGH
                    else CPU_USAGE_HIGH)
                   (str_or msg ''Threshold {threshold}% exceeded for {duration} minutes'')
             | Some cfg \<Rightarrow>
                 cfg\<lparr>threshold := th, duration_seconds := dur, severity := sev,
                     alert_message := str_or msg (alert_message cfg)\<rparr>);
          m1 = m\<lparr>thresholds := AList.update name cfg' (thresholds m)\<rparr>
      in if name \<in> fst ` set (alert_states m1)
         then m1\<lparr>alert_states := AList.update name (new_state cfg') (alert_states m1)\<rparr>
         else m1)"

text \<open>A core of \<open>_get_core_stats()\<close>: \<open>core.get("core_id")\<close> and
  \<open>core.get("usage", 0.0)\<close>.\<close>

record CoreStat =
  core_id :: "int option"
  usage :: pynum

definition initialize_core_thresholds :: "int \<Rightarrow> CPUThresholdMonitor \<Rightarrow> CPUThresholdMonitor" where
  "initialize_core_thresholds cid m =
     (if cid \<in> fst ` set (core_thresholds m) then m
      else
        (let cfgs = [(''core_usage_high'', new_config (PyFloat 90) 60 WARNING CPU_CORE_USAGE_HIGH
                        ''Core {core_id} usage has been above {threshold}% for {duration} minutes'')]
         in m\<lparr>core_thresholds := AList.update cid cfgs (core_thresholds m),
              core_alert_states :=
                AList.update cid (map (\<lambda>(name, cfg). (name, new_state cfg)) cfgs)
                  (core_alert_states m)\<rparr>))"

fun initialize_cores :: "CoreStat list \<Rightarrow> CPUThresholdMonitor \<Rightarrow> CPUThresholdMonitor" where
  "initialize_cores [] m = m"
| "initialize_cores (core # cores) m =
     initialize_cores cores
       (case core_id core of None \<Rightarrow> m | Some cid \<Rightarrow> initialize_core_thresholds cid m)"

definition initialize_alert_states :: "CoreStat list \<Rightarrow> CPUThresholdMonitor \<Rightarrow> CPUThresholdMonitor" where
  "initialize_alert_states core_stats m =
     initialize_cores core_stats
       (m\<lparr>alert_states :=
            fold (\<lambda>(name, cfg). AList.update name (new_state cfg)) (thresholds m)
              (alert_states m)\<rparr>)"

text \<open>\<open>start\<close> and \<open>stop\<close>, without the thread they start and join.\<close>

definition start :: "CoreStat list \<Rightarrow> CPUThresholdMonitor \<Rightarrow> CPUThresholdMonitor" where
  "start core_stats m =
     (if running m then m else (initialize_alert_states core_stats m)\<lparr>running := True\<rparr>)"

definition stop :: "CPUThresholdMonitor \<Rightarrow> CPUThresholdMonitor" where
  "stop m = m\<lparr>running := False\<rparr>"

text \<open>\<open>_check_cpu_thresholds\<close>. The reading is \<open>None\<close> when the CPU monitor raises: the
  \<open>except\<close> clause prints and nothing has been written yet.\<close>

definition check_cpu_thresholds ::
  "Python \<Rightarrow> pynum option \<Rightarrow> real \<Rightarrow> CPUThresholdMonitor \<Rightarrow> CPUThresholdMonitor" where
  "check_cpu_thresholds py reading current_time m =
     (case reading of
        None \<Rightarrow> m
      | Some cpu_usage \<Rightarrow>
          (let cutoff_time = current_time - 3600;
               history = filter (\<lambda>(ts, val). ts \<ge> cutoff_time)
                           (cpu_history m @ [(current_time, cpu_usage)]);
               (states, evs) =
                 check_each (prefix ''cpu_'')
                   (\<lambda>s. generate_alert py current_time s None None None)
                   cpu_usage current_time (alert_states m)
           in m\<lparr>cpu_history := history, alert_states := states,
                published := published m @ evs\<rparr>))"

text \<open>\<open>_check_core_thresholds\<close>; \<open>None\<close> again when the call of the CPU monitor raises.\<close>

fun check_cores ::
  "Python \<Rightarrow> real \<Rightarrow> CoreStat list \<Rightarrow> CPUThresholdMonitor \<Rightarrow> CPUThresholdMonitor" where
  "check_cores py current_time [] m = m"
| "check_cores py current_time (core # cores) m =
     check_cores py current_time cores
       (case core_id core of
          None \<Rightarrow> m
        | Some cid \<Rightarrow>
            (case map_of (core_alert_states m) cid of
               None \<Rightarrow> m
             | Some states \<Rightarrow>
                 (let (states', evs) =
                        check_each (\<lambda>name. True)
                          (\<lambda>s. generate_alert py current_time s (Some cid) None None)
                          (usage core) current_time states
                  in m\<lparr>core_alert_states := AList.update cid states' (core_alert_states m),
                       published := published m @ evs\<rparr>)))"

definition check_core_thresholds ::
  "Python \<Rightarrow> CoreStat list option \<Rightarrow> real \<Rightarrow> CPUThresholdMonitor \<Rightarrow> CPUThresholdMonitor" where
  "check_core_thresholds py reading current_time m =
     (case reading of
        None \<Rightarrow> m
      | Some core_stats \<Rightarrow>
          if core_stats = [] then m
          else check_cores py current_time core_stats (initialize_cores core_stats m))"

text \<open>A process of \<open>get_top_processes()\<close>: \<open>proc.get("pid")\<close>,
  \<open>proc.get("cpu_percent", 0.0)\<close> and \<open>proc.get("command", "unknown")\<close>.\<close>

record ProcStat =
  pid :: "int option"
  cpu_percent :: pynum
  command :: string

text \<open>The first loop of \<open>_check_process_thresholds\<close>.\<close>

fun check_processes ::
  "Python \<Rightarrow> real \<Rightarrow> ProcStat list \<Rightarrow> CPUThresholdMonitor \<Rightarrow> CPUThresholdMonitor" where
  "check_processes py current_time [] m = m"
| "check_processes py current_time (proc # procs) m =
     check_processes py current_time procs
       (case pid proc of
          None \<Rightarrow> m
        | Some p \<Rightarrow>
            (let states =
                   (case map_of (process_alert_states m) p of
                      None \<Rightarrow> map (\<lambda>(name, cfg). (name, new_state cfg)) (process_thresholds m)
                    | Some sts \<Rightarrow> sts);
                 (states', evs) =
                   check_each (\<lambda>name. True)
                     (\<lambda>s. generate_alert py current_time s None (Some p) (Some (command proc)))
                     (cpu_percent proc) current_time states
             in m\<lparr>process_alert_states := AList.update p states' (process_alert_states m),
                  published := published m @ evs\<rparr>))"

text \<open>\<open>seen_pids\<close>, and the clean-up that ends \<open>_check_process_thresholds\<close>: a process
  is deleted when it was not seen and none of its states is active.\<close>

definition seen_pids :: "ProcStat list \<Rightarrow> int list" where
  "seen_pids procs = concat (map (\<lambda>proc. case pid proc of None \<Rightarrow> [] | Some p \<Rightarrow> [p]) procs)"

definition any_active :: "(string \<times> 'ty AlertState) list \<Rightarrow> bool" where
  "any_active states = list_ex (\<lambda>(name, state). is_active state) states"

definition remove_unseen ::
  "'k list \<Rightarrow> ('k \<times> (string \<times> 'ty AlertState) list) list
     \<Rightarrow> ('k \<times> (string \<times> 'ty AlertState) list) list" where
  "remove_unseen seen tracked =
     filter (\<lambda>(key, states). \<not> (key \<notin> set seen \<and> \<not> any_active states)) tracked"

definition check_process_thresholds ::
  "Python \<Rightarrow> ProcStat list option \<Rightarrow> real \<Rightarrow> CPUThresholdMonitor \<Rightarrow> CPUThresholdMonitor" where
  "check_process_thresholds py reading current_time m =
     (case reading of
        None \<Rightarrow> m
      | Some processes \<Rightarrow>
          if processes = [] then m
          else
            (let m1 = check_processes py current_time processes m
             in m1\<lparr>process_alert_states :=
                    remove_unseen (seen_pids processes) (process_alert_states m1)\<rparr>))"

text \<open>The averages of \<open>_check_sustained_load\<close> and \<open>_check_sustained_bandwidth\<close> over the
  history since \<open>cutoff\<close>, and the value they store as \<open>current_value\<close>.\<close>

definition window :: "real \<Rightarrow> (real \<times> pynum) list \<Rightarrow> (real \<times> pynum) list" where
  "window cutoff history = filter (\<lambda>(ts, val). ts \<ge> cutoff) history"

definition average :: "(real \<times> pynum) list \<Rightarrow> real" where
  "average samples = sum_list (map (\<lambda>(ts, val). num_val val) samples) / real (length samples)"

definition sustained_value :: "real \<Rightarrow> (real \<times> pynum) list \<Rightarrow> pynum" where
  "sustained_value current_time history =
     (let five_min_data = window (current_time - 300) history;
          five_min_avg =
            (if five_min_data \<noteq> [] then PyFloat (average five_min_data) else PyInt 0);
          ten_min_data = window (current_time - 600) history;
          ten_min_avg =
            (if ten_min_data \<noteq> [] \<and> length ten_min_data \<ge> 10
             then PyFloat (average ten_min_data) else PyInt 0)
      in if num_val ten_min_avg > 0 then ten_min_avg else five_min_avg)"

definition check_sustained_load :: "Python \<Rightarrow> real \<Rightarrow> CPUThresholdMonitor \<Rightarrow> CPUThresholdMonitor" where
  "check_sustained_load py current_time m =
     (if length (cpu_history m) < 10 then m
      else
        (case map_of (thresholds m) ''cpu_usage_sustained'' of
           None \<Rightarrow> m
         | Some sustained_config \<Rightarrow>
             (case map_of (alert_states m) ''cpu_usage_sustained'' of
                None \<Rightarrow> m
              | Some sustained_state \<Rightarrow>
                  (let v = sustained_value current_time (cpu_history m);
                       (state', evs) =
                         check_state (\<lambda>s. generate_alert py current_time s None None None)
                           sustained_config (num_val v \<ge> num_val (threshold sustained_config))
                           current_time
                           (sustained_state\<lparr>current_value := v\<rparr>)
                   in m\<lparr>alert_states :=
                          AList.update ''cpu_usage_sustained'' state' (alert_states m),
                        published := published m @ evs\<rparr>))))"

text \<open>\<open>get_active_alerts\<close>: the result dictionary, filled in the order of the source.\<close>

record ActiveAlert =
  info_type :: AlertType
  info_severity :: AlertSeverity
  info_threshold :: pynum
  info_current_value :: pynum
  info_core_id :: "int option"
  info_pid :: "int option"
  info_duration :: real
  info_message :: string

definition active_alert ::
  "Python \<Rightarrow> real \<Rightarrow> AlertType AlertState \<Rightarrow> int option \<Rightarrow> int option \<Rightarrow> ActiveAlert" where
  "active_alert py now state cid p =
     \<lparr>info_type = alert_type (config state), info_severity = severity (config state),
      info_threshold = threshold (config state), info_current_value = current_value state,
      info_core_id = cid, info_pid = p,
      info_duration = exceeded_duration now (exceeded_since state),
      info_message = format_alert_message py now state cid p None\<rparr>"

definition active_entries ::
  "Python \<Rightarrow> real \<Rightarrow> string \<Rightarrow> int option \<Rightarrow> int option \<Rightarrow> (string \<times> AlertType AlertState) list
     \<Rightarrow> (string \<times> ActiveAlert) list" where
  "active_entries py now key_prefix cid p states =
     map (\<lambda>(name, state). (key_prefix @ name, active_alert py now state cid p))
       (filter (\<lambda>(name, state). is_active state) states)"

definition get_active_alerts :: "Python \<Rightarrow> real \<Rightarrow> CPUThresholdMonitor \<Rightarrow> (string \<times> ActiveAlert) list" where
  "get_active_alerts py now m =
     fold (\<lambda>(key, info). AList.update key info)
       (active_entries py now [] None None (alert_states m)
        @ concat (map (\<lambda>(cid, states).
                    active_entries py now (''core_'' @ str_int cid @ ''_'') (Some cid) None states)
                  (core_alert_states m))
        @ concat (map (\<lambda>(p, states).
                    active_entries py now (''process_'' @ str_int p @ ''_'') None (Some p) states)
                  (process_alert_states m)))
       []"

section \<open>NetworkThresholdMonitor\<close>

record NetworkThresholdMonitor =
  net_thresholds :: "(string \<times> NetworkAlertType ThresholdConfig) list"
  interface_thresholds :: "(string \<times> (string \<times> NetworkAlertType ThresholdConfig) list) list"
  net_process_thresholds :: "(string \<times> NetworkAlertType ThresholdConfig) list"
  wifi_thresholds :: "(string \<times> NetworkAlertType ThresholdConfig) list"
  net_alert_states :: "(string \<times> NetworkAlertType AlertState) list"
  interface_alert_states :: "(string \<times> (string \<times> NetworkAlertType AlertState) list) list"
  net_process_alert_states :: "(string \<times> (string \<times> NetworkAlertType AlertState) list) list"
  wifi_alert_states :: "(string \<times> NetworkAlertType AlertState) list"
  bandwidth_history :: "(real \<times> pynum) list"
  net_running :: bool
  net_published :: "NetworkAlertType AlertData MetricEvent list"

definition net_monitor_init :: NetworkThresholdMonitor where
  "net_monitor_init =
     \<lparr>net_thresholds =
        [(''bandwidth_usage_high'', new_config (PyInt 50000000) 60 WARNING BANDWIDTH_USAGE_HIGH
            ''Network bandwidth usage has been above {threshold} bytes/s for {duration} minutes''),
         (''download_rate_high'', new_config (PyInt 40000000) 60 WARNING DOWNLOAD_RATE_HIGH
            ''Download bandwidth has been above {threshold} bytes/s for {duration} minutes''),
         (''upload_rate_high'', new_config (PyInt 20000000) 60 WARNING UPLOAD_RATE_HIGH
            ''Upload bandwidth has been above {threshold} bytes/s for {duration} minutes''),
         (''bandwidth_usage_very_high'', new_config (PyInt 80000000) 30 CRITICAL BANDWIDTH_USAGE_VERY_HIGH
            ''Network bandwidth usage is critically high at {value} bytes/s, exceeding {threshold} bytes/s''),
         (''bandwidth_usage_sustained'', new_config (PyInt 10000000) 600 WARNING TOTAL_BANDWIDTH_SUSTAINED
            ''Network has been under sustained load (>{threshold} bytes/s) for {duration} minutes''),
         (''connection_count_high'', new_config (PyInt 1000) 120 WARNING CONNECTION_COUNT_HIGH
            ''Network connection count has been above {threshold} for {duration} minutes'')],
      interface_thresholds = [],
      net_process_thresholds =
        [(''process_bandwidth_high'', new_config (PyInt 10000000) 120 WARNING PROCESS_BANDWIDTH_HIGH
            ''Process {process_name} has been using >{threshold} bytes/s bandwidth for {duration} minutes'')],
      wifi_thresholds =
        [(''wifi_signal_low'', new_config (PyInt (- 75)) 300 WARNING WIFI_SIGNAL_LOW
            ''WiFi signal strength has been below {threshold} dBm for {duration} minutes'')],
      net_alert_states = [], interface_alert_states = [], net_process_alert_states = [],
      wifi_alert_states = [], bandwidth_history = [], net_running = False,
      net_published = []\<rparr>"

definition net_set_threshold ::
  "string \<Rightarrow> pynum \<Rightarrow> real \<Rightarrow> AlertSeverity \<Rightarrow> string option \<Rightarrow> NetworkThresholdMonitor
     \<Rightarrow> NetworkThresholdMonitor" where
  "net_set_threshold name th dur sev msg m =
     (let cfg' =
            (case map_of (net_thresholds m) name of
               None \<Rightarrow>
                 new_config th dur sev
                   (if prefix ''bandwidth_'' name then BANDWIDTH_USAGE_HIGH
                    else if prefix ''download_'' name then DOWNLOAD_RATE_HIGH
                    else if prefix ''upload_'' name then UPLOAD_RATE_HIGH
                    else if prefix ''connection_'' name then CONNECTION_COUNT_HIGH
                    else if prefix ''process_'' name then PROCESS_BANDWIDTH_HIGH
                    else if prefix ''wifi_'' name then WIFI_SIGNAL_LOW
                    else BANDWIDTH_USAGE_HIGH)
                   (str_or msg ''Network threshold {threshold} exceeded for {duration} minutes'')
             | Some cfg \<Rightarrow>
                 cfg\<lparr>threshold := th, duration_seconds := dur, severity := sev,
                     alert_message := str_or msg (alert_message cfg)\<rparr>);
          m1 = m\<lparr>net_thresholds := AList.update name cfg' (net_thresholds m)\<rparr>
      in if name \<in> fst ` set (net_alert_states m1)
         then m1\<lparr>net_alert_states := AList.update name (new_state cfg') (net_alert_states m1)\<rparr>
         else m1)"

text \<open>An interface of \<open>get_interface_details()\<close>: \<open>interface.get("name")\<close>, whether
  \<open>interface.get("status", "").lower()\<close> is \<open>"active"\<close>, the result of
  \<open>get_interface_bandwidth(name)\<close> (0 without that method) and
  \<open>interface.get("errors", 0)\<close>.\<close>

record InterfaceStat =
  if_name :: "string option"
  if_active :: bool
  if_bandwidth :: pynum
  if_errors :: pynum

definition initialize_interface_thresholds ::
  "string \<Rightarrow> NetworkThresholdMonitor \<Rightarrow> NetworkThresholdMonitor" where
  "initialize_interface_thresholds interface_name m =
     (if interface_name \<in> fst ` set (interface_thresholds m) then m
      else
        (let cfgs =
               [(''interface_bandwidth_high'', new_config (PyInt 40000000) 60 WARNING BANDWIDTH_USAGE_HIGH
                   ''Interface {interface_name} usage has been above {threshold} bytes/s for {duration} minutes''),
                (''interface_error_rate_high'', new_config (PyInt 100) 300 WARNING INTERFACE_ERROR_RATE_HIGH
                   ''Interface {interface_name} has had more than {threshold} errors in the last {duration} minutes'')]
         in m\<lparr>interface_thresholds := AList.update interface_name cfgs (interface_thresholds m),
              interface_alert_states :=
                AList.update interface_name (map (\<lambda>(name, cfg). (name, new_state cfg)) cfgs)
                  (interface_alert_states m)\<rparr>))"

text \<open>\<open>if name:\<close> holds for a name that is neither \<open>None\<close> nor empty.\<close>

fun initialize_interfaces ::
  "InterfaceStat list \<Rightarrow> NetworkThresholdMonitor \<Rightarrow> NetworkThresholdMonitor" where
  "initialize_interfaces [] m = m"
| "initialize_interfaces (interface # interfaces) m =
     initialize_interfaces interfaces
       (case if_name interface of
          None \<Rightarrow> m
        | Some name \<Rightarrow> if name = [] then m else initialize_interface_thresholds name m)"

definition net_initialize_alert_states ::
  "InterfaceStat list \<Rightarrow> NetworkThresholdMonitor \<Rightarrow> NetworkThresholdMonitor" where
  "net_initialize_alert_states interface_details m =
     (let m1 = initialize_interfaces interface_details
                 (m\<lparr>net_alert_states :=
                      fold (\<lambda>(name, cfg). AList.update name (new_state cfg)) (net_thresholds m)
                        (net_alert_states m)\<rparr>)
      in m1\<lparr>wifi_alert_states :=
             fold (\<lambda>(name, cfg). AList.update name (new_state cfg)) (wifi_thresholds m1)
               (wifi_alert_states m1)\<rparr>)"

definition net_start ::
  "InterfaceStat list \<Rightarrow> NetworkThresholdMonitor \<Rightarrow> NetworkThresholdMonitor" where
  "net_start interface_details m =
     (if net_running m then m
      else (net_initialize_alert_states interface_details m)\<lparr>net_running := True\<rparr>)"

text \<open>\<open>_check_threshold\<close>. The comparison depends on the name: for the WiFi signal lower
  values are worse.\<close>

definition threshold_exceeded :: "string \<Rightarrow> pynum \<Rightarrow> 'ty ThresholdConfig \<Rightarrow> bool" where
  "threshold_exceeded name v cfg =
     (if name = ''wifi_signal_low'' then num_val v \<le> num_val (threshold cfg)
      else num_val v \<ge> num_val (threshold cfg))"

definition check_threshold ::
  "Python \<Rightarrow> string \<Rightarrow> pynum \<Rightarrow> real \<Rightarrow> NetworkThresholdMonitor \<Rightarrow> NetworkThresholdMonitor" where
  "check_threshold py name v tstamp m =
     (case map_of (net_alert_states m) name of
        None \<Rightarrow> m
      | Some state0 \<Rightarrow>
          (let state = state0\<lparr>current_value := v\<rparr>;
               cfg = config state;
               (state', evs) =
                 check_state (\<lambda>s. net_generate_alert py tstamp s None None) cfg
                   (threshold_exceeded name v cfg) tstamp state
           in m\<lparr>net_alert_states := AList.update name state' (net_alert_states m),
                net_published := net_published m @ evs\<rparr>))"

text \<open>\<open>_check_bandwidth_thresholds\<close>; the reading is \<open>rx_bytes_per_sec\<close> and
  \<open>tx_bytes_per_sec\<close>, or \<open>None\<close> when the network monitor raises.\<close>

definition check_bandwidth_thresholds ::
  "Python \<Rightarrow> (pynum \<times> pynum) option \<Rightarrow> real \<Rightarrow> NetworkThresholdMonitor \<Rightarrow> NetworkThresholdMonitor" where
  "check_bandwidth_thresholds py reading current_time m =
     (case reading of
        None \<Rightarrow> m
      | Some (rx_bytes_per_sec, tx_bytes_per_sec) \<Rightarrow>
          (let total_bandwidth = num_add rx_bytes_per_sec tx_bytes_per_sec;
               cutoff_time = current_time - 3600;
               m1 = m\<lparr>bandwidth_history :=
                        filter (\<lambda>(ts, val). ts \<ge> cutoff_time)
                          (bandwidth_history m @ [(current_time, total_bandwidth)])\<rparr>;
               m2 = check_threshold py ''bandwidth_usage_high'' total_bandwidth current_time m1;
               m3 = check_threshold py ''bandwidth_usage_very_high'' total_bandwidth current_time m2;
               m4 = check_threshold py ''download_rate_high'' rx_bytes_per_sec current_time m3
           in check_threshold py ''upload_rate_high'' tx_bytes_per_sec current_time m4))"

text \<open>\<open>_check_wifi_thresholds\<close>; the reading is \<open>None\<close> when \<open>get_wifi_details()\<close> raises
  or returns nothing.\<close>

record WifiInfo =
  connected :: bool
  signal_strength :: pynum

definition check_wifi_thresholds ::
  "Python \<Rightarrow> WifiInfo option \<Rightarrow> real \<Rightarrow> NetworkThresholdMonitor \<Rightarrow> NetworkThresholdMonitor" where
  "check_wifi_thresholds py reading current_time m =
     (case reading of
        None \<Rightarrow> m
      | Some wifi_info \<Rightarrow>
          if \<not> connected wifi_info then m
          else check_threshold py ''wifi_signal_low'' (signal_strength wifi_info) current_time m)"

text \<open>\<open>_check_connection_thresholds\<close>; the reading is \<open>connection_stats.get("total", 0)\<close>.\<close>

definition check_connection_thresholds ::
  "Python \<Rightarrow> pynum option \<Rightarrow> real \<Rightarrow> NetworkThresholdMonitor \<Rightarrow> NetworkThresholdMonitor" where
  "check_connection_thresholds py reading current_time m =
     (case reading of
        None \<Rightarrow> m
      | Some total_connections \<Rightarrow>
          check_threshold py ''connection_count_high'' total_connections current_time m)"

text \<open>\<open>_check_sustained_bandwidth\<close>.\<close>

definition check_sustained_bandwidth ::
  "Python \<Rightarrow> real \<Rightarrow> NetworkThresholdMonitor \<Rightarrow> NetworkThresholdMonitor" where
  "check_sustained_bandwidth py current_time m =
     (if length (bandwidth_history m) < 10 then m
      else
        (case map_of (net_thresholds m) ''bandwidth_usage_sustained'' of
           None \<Rightarrow> m
         | Some sustained_config \<Rightarrow>
             (case map_of (net_alert_states m) ''bandwidth_usage_sustained'' of
                None \<Rightarrow> m
              | Some sustained_state \<Rightarrow>
                  (let v = sustained_value current_time (bandwidth_history m);
                       m1 = m\<lparr>net_alert_states :=
                                AList.update ''bandwidth_usage_sustained''
                                  (sustained_state\<lparr>current_value := v\<rparr>) (net_alert_states m)\<rparr>
                   in check_threshold py ''bandwidth_usage_sustained'' v current_time m1))))"

text \<open>The block on the one state \<open>name\<close> of a dictionary, when it is there
  (\<open>if "process_bandwidth_high" in states\<close> and the two interface checks).\<close>

definition check_named ::
  "string \<Rightarrow> ('ty AlertState \<Rightarrow> 'ev) \<Rightarrow> pynum \<Rightarrow> real \<Rightarrow> (string \<times> 'ty AlertState) list
     \<Rightarrow> (string \<times> 'ty AlertState) list \<times> 'ev list" where
  "check_named name gen v t states =
     (case map_of states name of
        None \<Rightarrow> (states, [])
      | Some state \<Rightarrow>
          (let (state', evs) =
                 check_state gen (config state) (num_val v \<ge> num_val (threshold (config state))) t
                   (state\<lparr>current_value := v\<rparr>)
           in (AList.update name state' states, evs)))"

text \<open>\<open>_check_interface_thresholds\<close>.\<close>

fun check_interfaces ::
  "Python \<Rightarrow> real \<Rightarrow> InterfaceStat list \<Rightarrow> NetworkThresholdMonitor \<Rightarrow> NetworkThresholdMonitor" where
  "check_interfaces py current_time [] m = m"
| "check_interfaces py current_time (interface # interfaces) m =
     check_interfaces py current_time interfaces
       (case if_name interface of
          None \<Rightarrow> m
        | Some name \<Rightarrow>
            (case map_of (interface_alert_states m) name of
               None \<Rightarrow> m
             | Some states \<Rightarrow>
                 if name = [] \<or> \<not> if_active interface then m
                 else
                   (let gen = (\<lambda>s. net_generate_alert py current_time s (Some name) None);
                        (states1, evs1) =
                          check_named ''interface_bandwidth_high'' gen (if_bandwidth interface)
                            current_time states;
                        (states2, evs2) =
                          check_named ''interface_error_rate_high'' gen (if_errors interface)
                            current_time states1
                    in m\<lparr>interface_alert_states :=
                           AList.update name states2 (interface_alert_states m),
                         net_published := net_published m @ evs1 @ evs2\<rparr>)))"

definition check_interface_thresholds ::
  "Python \<Rightarrow> InterfaceStat list option \<Rightarrow> real \<Rightarrow> NetworkThresholdMonitor \<Rightarrow> NetworkThresholdMonitor" where
  "check_interface_thresholds py reading current_time m =
     (case reading of
        None \<Rightarrow> m
      | Some interface_details \<Rightarrow>
          if interface_details = [] then m
          else check_interfaces py current_time interface_details
                 (initialize_interfaces interface_details m))"

text \<open>\<open>NetworkThresholdMonitor._check_process_thresholds\<close>; a process is
  \<open>proc.get("name", "unknown")\<close> and \<open>proc.get("bandwidth", 0.0)\<close>.\<close>

fun net_check_processes ::
  "Python \<Rightarrow> real \<Rightarrow> (string \<times> pynum) list \<Rightarrow> NetworkThresholdMonitor \<Rightarrow> NetworkThresholdMonitor" where
  "net_check_processes py current_time [] m = m"
| "net_check_processes py current_time ((process_name, bandwidth) # procs) m =
     net_check_processes py current_time procs
       (let states =
              (case map_of (net_process_alert_states m) process_name of
                 None \<Rightarrow> map (\<lambda>(name, cfg). (name, new_state cfg)) (net_process_thresholds m)
               | Some sts \<Rightarrow> sts);
            (states', evs) =
              check_named ''process_bandwidth_high''
                (\<lambda>s. net_generate_alert py current_time s None (Some process_name))
                bandwidth current_time states
        in m\<lparr>net_process_alert_states :=
               AList.update process_name states' (net_process_alert_states m),
             net_published := net_published m @ evs\<rparr>)"

definition net_check_process_thresholds ::
  "Python \<Rightarrow> (string \<times> pynum) list option \<Rightarrow> real \<Rightarrow> NetworkThresholdMonitor \<Rightarrow> NetworkThresholdMonitor" where
  "net_check_process_thresholds py reading current_time m =
     (case reading of
        None \<Rightarrow> m
      | Some processes \<Rightarrow>
          if processes = [] then m
          else
            (let m1 = net_check_processes py current_time processes m
             in m1\<lparr>net_process_alert_states :=
                    remove_unseen (map fst processes) (net_process_alert_states m1)\<rparr>))"

section \<open>MetricsEventDispatcher (system_metrics/realtime/events.py)\<close>

text \<open>
  A weak reference is a number; \<open>resolve\<close> dereferences it and gives the observer's
  \<open>update\<close> method, or \<open>None\<close> when the observer has been collected. A call of \<open>update\<close>
  returns or raises an \<open>Exception\<close>. The set \<open>_observers\<close> is the list of its members in
  the order the \<open>for\<close> loop visits them. Beside the dispatcher, \<open>_dispatch_event\<close> yields the
  calls of \<open>update\<close> it made, each with its outcome.
\<close>

datatype update_result = Returned | Raised

record Dispatcher =
  observers :: "nat list"
  event_filters :: "(nat \<times> MetricUpdateEvent list) list"
  dispatcher_running :: bool

fun notify_observers ::
  "(nat \<Rightarrow> ('d MetricEvent \<Rightarrow> update_result) option) \<Rightarrow> (nat \<times> MetricUpdateEvent list) list
     \<Rightarrow> 'd MetricEvent \<Rightarrow> nat list \<Rightarrow> nat list \<times> (nat \<times> 'd MetricEvent \<times> update_result) list" where
  "notify_observers resolve filters event [] = ([], [])"
| "notify_observers resolve filters event (observer_ref # refs) =
     (let (dead_refs, calls) = notify_observers resolve filters event refs
      in case resolve observer_ref of
           None \<Rightarrow> (observer_ref # dead_refs, calls)
         | Some update \<Rightarrow>
             (case map_of filters observer_ref of
                None \<Rightarrow> (dead_refs, (observer_ref, event, update event) # calls)
              | Some event_types \<Rightarrow>
                  if event_type event \<notin> set event_types then (dead_refs, calls)
                  else (dead_refs, (observer_ref, event, update event) # calls)))"

definition dispatch_event ::
  "(nat \<Rightarrow> ('d MetricEvent \<Rightarrow> update_result) option) \<Rightarrow> 'd MetricEvent \<Rightarrow> Dispatcher
     \<Rightarrow> Dispatcher \<times> (nat \<times> 'd MetricEvent \<times> update_result) list" where
  "dispatch_event resolve event d =
     (let (dead_refs, calls) = notify_observers resolve (event_filters d) event (observers d)
      in (d\<lparr>observers := filter (\<lambda>r. r \<notin> set dead_refs) (observers d),
            event_filters := filter (\<lambda>(r, types). r \<notin> set dead_refs) (event_filters d)\<rparr>,
          calls))"

text \<open>\<open>_dispatch_loop\<close> on the content of the queue: \<open>None\<close> is the sentinel of \<open>stop\<close>;
  on an empty queue the worker waits for the next event.\<close>

fun dispatch_loop ::
  "(nat \<Rightarrow> ('d MetricEvent \<Rightarrow> update_result) option) \<Rightarrow> 'd MetricEvent option list \<Rightarrow> Dispatcher
     \<Rightarrow> Dispatcher \<times> (nat \<times> 'd MetricEvent \<times> update_result) list" where
  "dispatch_loop resolve [] d = (d, [])"
| "dispatch_loop resolve (item # queue) d =
     (if \<not> dispatcher_running d then (d, [])
      else
        (case item of
           None \<Rightarrow> (d, [])
         | Some event \<Rightarrow>
             (let (d1, calls) = dispatch_event resolve event d;
                  (d2, calls') = dispatch_loop resolve queue d1
              in (d2, calls @ calls'))))"

section \<open>Runs of the monitors\<close>






text \<open>The operations on a \<open>CPUThresholdMonitor\<close>: the public methods, and the four checks
  that \<open>_check_loop\<close> calls on every tick, each with what the CPU monitor returns to it and
  with its reading of the clock.\<close>

datatype cpu_action =
    Start "CoreStat list"
  | Stop
  | SetThreshold string pynum real AlertSeverity "string option"
  | CheckCpu "pynum option" real
  | CheckCores "CoreStat list option" real
  | CheckProcesses "ProcStat list option" real
  | CheckSustained real

fun perform :: "Python \<Rightarrow> cpu_action \<Rightarrow> CPUThresholdMonitor \<Rightarrow> CPUThresholdMonitor" where
  "perform py (Start core_stats) m = start core_stats m"
| "perform py Stop m = stop m"
| "perform py (SetThreshold name th dur sev msg) m = set_threshold name th dur sev msg m"
| "perform py (CheckCpu reading t) m = check_cpu_thresholds py reading t m"
| "perform py (CheckCores reading t) m = check_core_thresholds py reading t m"
| "perform py (CheckProcesses reading t) m = check_process_thresholds py reading t m"
| "perform py (CheckSustained t) m = check_sustained_load py t m"

fun is_check :: "cpu_action \<Rightarrow> bool" where
  "is_check (CheckCpu reading t) = True"
| "is_check (CheckCores reading t) = True"
| "is_check (CheckProcesses reading t) = True"
| "is_check (CheckSustained t) = True"
| "is_check a = False"

text \<open>The same for a \<open>NetworkThresholdMonitor\<close>.\<close>

datatype net_action =
    NetStart "InterfaceStat list"
  | NetSetThreshold string pynum real AlertSeverity "string option"
  | CheckBandwidth "(pynum \<times> pynum) option" real
  | CheckInterfaces "InterfaceStat list option" real
  | NetCheckProcesses "(string \<times> pynum) list option" real
  | CheckWifi "WifiInfo option" real
  | CheckSustainedBandwidth real
  | CheckConnections "pynum option" real

fun net_perform :: "Python \<Rightarrow> net_action \<Rightarrow> NetworkThresholdMonitor \<Rightarrow> NetworkThresholdMonitor" where
  "net_perform py (NetStart interface_details) m = net_start interface_details m"
| "net_perform py (NetSetThreshold name th dur sev msg) m = net_set_threshold name th dur sev msg m"
| "net_perform py (CheckBandwidth reading t) m = check_bandwidth_thresholds py reading t m"
| "net_perform py (CheckInterfaces reading t) m = check_interface_thresholds py reading t m"
| "net_perform py (NetCheckProcesses reading t) m = net_check_process_thresholds py reading t m"
| "net_perform py (CheckWifi reading t) m = check_wifi_thresholds py reading t m"
| "net_perform py (CheckSustainedBandwidth t) m = check_sustained_bandwidth py t m"
| "net_perform py (CheckConnections reading t) m = check_connection_thresholds py reading t m"

text \<open>The invariant of an \<open>AlertState\<close>, and of all the states that a monitor tracks.\<close>

definition state_ok :: "'ty AlertState \<Rightarrow> bool" where
  "state_ok s = (is_active s \<longrightarrow> exceeded_since s \<noteq> None)"

definition states_ok :: "(string \<times> 'ty AlertState) list \<Rightarrow> bool" where
  "states_ok states = (\<forall>(name, s) \<in> set states. state_ok s)"

definition monitor_ok :: "CPUThresholdMonitor \<Rightarrow> bool" where
  "monitor_ok m =
     (states_ok (alert_states m)
      \<and> (\<forall>(cid, states) \<in> set (core_alert_states m). states_ok states)
      \<and> (\<forall>(p, states) \<in> set (process_alert_states m). states_ok states))"

definition net_monitor_ok :: "NetworkThresholdMonitor \<Rightarrow> bool" where
  "net_monitor_ok m =
     (states_ok (net_alert_states m)
      \<and> states_ok (wifi_alert_states m)
      \<and> (\<forall>(interface_name, states) \<in> set (interface_alert_states m). states_ok states)
      \<and> (\<forall>(process_name, states) \<in> set (net_process_alert_states m). states_ok states))"

section \<open>Auxiliary lemmas\<close>

lemma map_of_update_same: "map_of (AList.update k v al) k = Some v"
  by (simp add: update_conv')

section \<open>Configuration values given to \<open>set_threshold\<close>\<close>

text \<open>
  C5 (as amended). \<open>set_threshold\<close> of either monitor validates nothing: after every call
  the registry holds, under the given name, a config with exactly the given threshold,
  duration and severity, whatever their values (a negative duration included); only a
  missing or empty message keeps the previous message, or the default one for a new name.
  The call has no failing branch.
\<close>

theorem set_threshold_stores_given_values:
  "(\<exists>cfg. map_of (thresholds (set_threshold name th dur sev msg m)) name = Some cfg
      \<and> threshold cfg = th \<and> duration_seconds cfg = dur \<and> severity cfg = sev
      \<and> alert_message cfg =
          str_or msg (case map_of (thresholds m) name of
                        None \<Rightarrow> ''Threshold {threshold}% exceeded for {duration} minutes''
                      | Some c \<Rightarrow> alert_message c))
   \<and> (\<exists>cfg. map_of (net_thresholds (net_set_threshold name th dur sev msg nm)) name = Some cfg
      \<and> threshold cfg = th \<and> duration_seconds cfg = dur \<and> severity cfg = sev
      \<and> alert_message cfg =
          str_or msg (case map_of (net_thresholds nm) name of
                        None \<Rightarrow> ''Network threshold {threshold} exceeded for {duration} minutes''
                      | Some c \<Rightarrow> alert_message c))"
proof
  show "\<exists>cfg. map_of (thresholds (set_threshold name th dur sev msg m)) name = Some cfg
      \<and> threshold cfg = th \<and> duration_seconds cfg = dur \<and> severity cfg = sev
      \<and> alert_message cfg =
          str_or msg (case map_of (thresholds m) name of
                        None \<Rightarrow> ''Threshold {threshold}% exceeded for {duration} minutes''
                      | Some c \<Rightarrow> alert_message c)"
    by (cases "map_of (thresholds m) name")
       (simp_all add: set_threshold_def Let_def map_of_update_same new_config_def)
next
  show "\<exists>cfg. map_of (net_thresholds (net_set_threshold name th dur sev msg nm)) name = Some cfg
      \<and> threshold cfg = th \<and> duration_seconds cfg = dur \<and> severity cfg = sev
      \<and> alert_message cfg =
          str_or msg (case map_of (net_thresholds nm) name of
                        None \<Rightarrow> ''Network threshold {threshold} exceeded for {duration} minutes''
                      | Some c \<Rightarrow> alert_message c)"
    by (cases "map_of (net_thresholds nm) name")
       (simp_all add: net_set_threshold_def Let_def map_of_update_same new_config_def)
qed

text \<open>The theorem at a negative duration for the default threshold \<open>cpu_usage_high\<close>,
  whose duration was 60: the registry holds \<open>-5\<close> afterwards.\<close>

theorem set_threshold_stores_given_values_witness:
  "map_option duration_seconds
     (map_of (thresholds (set_threshold ''cpu_usage_high'' (PyFloat 80) (- 5) WARNING None cpu_monitor_init))
        ''cpu_usage_high'') = Some (- 5)
   \<and> map_option duration_seconds (map_of (thresholds cpu_monitor_init) ''cpu_usage_high'') = Some 60"
  using set_threshold_stores_given_values
          [of "''cpu_usage_high''" "PyFloat 80" "- 5" WARNING None cpu_monitor_init]
  by (auto simp: cpu_monitor_init_def new_config_def)

text \<open>C5 as stated fails: a call with a negative duration does not keep the previous
  config of the threshold.\<close>

theorem set_threshold_keeps_previous_counterexample:
  "\<not> (\<forall>name th dur sev msg m. dur < 0 \<longrightarrow>
         map_of (thresholds (set_threshold name th dur sev msg m)) name = map_of (thresholds m) name)"
proof
  assume a: "\<forall>name th dur sev msg m. dur < 0 \<longrightarrow>
         map_of (thresholds (set_threshold name th dur sev msg m)) name = map_of (thresholds m) name"
  have "map_of (thresholds (set_threshold ''cpu_usage_high'' (PyFloat 80) (- 5) WARNING None cpu_monitor_init))
          ''cpu_usage_high'' = map_of (thresholds cpu_monitor_init) ''cpu_usage_high''"
    using a by simp
  then show False
    by (simp add: set_threshold_def Let_def map_of_update_same cpu_monitor_init_def
          new_config_def str_or_def)
qed

section \<open>Pruning of per-process alert states\<close>

lemma keys_update: "fst ` set (AList.update k v al) = insert k (fst ` set al)"
  by (induction al) auto

lemma distinct_keys_update: "distinct (map fst al) \<Longrightarrow> distinct (map fst (AList.update k v al))"
  by (simp add: distinct_update)

lemma check_processes_distinct:
  "distinct (map fst (process_alert_states m)) \<Longrightarrow>
   distinct (map fst (process_alert_states (check_processes py t procs m)))"
  by (induction procs arbitrary: m)
     (auto simp: Let_def distinct_update split: option.splits prod.splits)

lemma check_processes_unseen:
  "p \<notin> set (seen_pids procs) \<Longrightarrow>
   map_of (process_alert_states (check_processes py t procs m)) p = map_of (process_alert_states m) p"
  by (induction procs arbitrary: m)
     (auto simp: Let_def seen_pids_def update_conv' split: option.splits prod.splits)

lemma check_processes_keeps:
  "p \<in> fst ` set (process_alert_states m) \<Longrightarrow>
   p \<in> fst ` set (process_alert_states (check_processes py t procs m))"
proof (induction procs arbitrary: m)
  case Nil
  then show ?case by simp
next
  case (Cons proc procs)
  from Cons.prems show ?case
    apply simp
    apply (rule Cons.IH)
    apply (auto simp: Let_def keys_update split: option.splits prod.splits)
    done
qed

lemma check_processes_seen:
  "p \<in> set (seen_pids procs) \<Longrightarrow>
   p \<in> fst ` set (process_alert_states (check_processes py t procs m))"
proof (induction procs arbitrary: m)
  case Nil
  then show ?case by (simp add: seen_pids_def)
next
  case (Cons proc procs)
  show ?case
  proof (cases "pid proc = Some p")
    case True
    then show ?thesis
      apply simp
      apply (rule check_processes_keeps)
      apply (auto simp: Let_def keys_update split: prod.splits)
      done
  next
    case False
    then have "p \<in> set (seen_pids procs)"
      using Cons.prems by (auto simp: seen_pids_def split: option.splits)
    then show ?thesis
      using Cons.IH by simp
  qed
qed

lemma map_of_remove_unseen:
  "distinct (map fst tracked) \<Longrightarrow>
   map_of (remove_unseen seen tracked) k =
     (case map_of tracked k of
        None \<Rightarrow> None
      | Some states \<Rightarrow> if k \<notin> set seen \<and> \<not> any_active states then None else Some states)"
proof (induction tracked)
  case Nil
  then show ?case by (simp add: remove_unseen_def)
next
  case (Cons a tracked)
  obtain k' sts where a: "a = (k', sts)" by (cases a)
  have ih: "map_of (remove_unseen seen tracked) k =
     (case map_of tracked k of
        None \<Rightarrow> None
      | Some states \<Rightarrow> if k \<notin> set seen \<and> \<not> any_active states then None else Some states)"
    using Cons by simp
  have notin: "k' = k \<Longrightarrow> map_of tracked k = None"
    using Cons.prems a by (simp add: map_of_eq_None_iff)
  show ?case
    using ih notin by (auto simp: a remove_unseen_def split: option.splits)
qed


lemma cpu_process_pruning:
  "(processes \<noteq> [] \<longrightarrow> distinct (map fst (process_alert_states m)) \<longrightarrow>
      map_of (process_alert_states m) p = Some states \<longrightarrow>
      (map_of (process_alert_states (check_process_thresholds py (Some processes) t m)) p = None
         \<longleftrightarrow> p \<notin> set (seen_pids processes) \<and> \<not> any_active states)
      \<and> (p \<notin> set (seen_pids processes) \<longrightarrow> any_active states \<longrightarrow>
           map_of (process_alert_states (check_process_thresholds py (Some processes) t m)) p
             = Some states))
   \<and> process_alert_states (check_process_thresholds py (Some []) t m) = process_alert_states m
   \<and> process_alert_states (check_process_thresholds py None t m) = process_alert_states m"
proof (intro conjI impI)
  assume ne: "processes \<noteq> []" and d: "distinct (map fst (process_alert_states m))"
    and s: "map_of (process_alert_states m) p = Some states"
  let ?m1 = "check_processes py t processes m"
  have d1: "distinct (map fst (process_alert_states ?m1))"
    using d by (rule check_processes_distinct)
  have res: "map_of (process_alert_states (check_process_thresholds py (Some processes) t m)) p =
     (case map_of (process_alert_states ?m1) p of
        None \<Rightarrow> None
      | Some sts \<Rightarrow> if p \<notin> set (seen_pids processes) \<and> \<not> any_active sts then None else Some sts)"
    using ne by (simp add: check_process_thresholds_def Let_def map_of_remove_unseen [OF d1])
  show "map_of (process_alert_states (check_process_thresholds py (Some processes) t m)) p = None
         \<longleftrightarrow> p \<notin> set (seen_pids processes) \<and> \<not> any_active states"
  proof (cases "p \<in> set (seen_pids processes)")
    case True
    then have "p \<in> fst ` set (process_alert_states ?m1)"
      by (rule check_processes_seen)
    then obtain sts where "map_of (process_alert_states ?m1) p = Some sts"
      by (metis domD dom_map_of_conv_image_fst)
    then show ?thesis using True res by simp
  next
    case False
    then have "map_of (process_alert_states ?m1) p = Some states"
      using s by (simp add: check_processes_unseen)
    then show ?thesis using False res by simp
  qed
  show "map_of (process_alert_states (check_process_thresholds py (Some processes) t m)) p = Some states"
    if "p \<notin> set (seen_pids processes)" "any_active states"
  proof -
    have "map_of (process_alert_states ?m1) p = Some states"
      using s that by (simp add: check_processes_unseen)
    then show ?thesis using that res by simp
  qed
qed (simp_all add: check_process_thresholds_def)

lemma net_check_processes_distinct:
  "distinct (map fst (net_process_alert_states m)) \<Longrightarrow>
   distinct (map fst (net_process_alert_states (net_check_processes py t procs m)))"
  by (induction procs arbitrary: m)
     (auto simp: Let_def case_prod_beta distinct_update)

lemma net_check_processes_unseen:
  "p \<notin> fst ` set procs \<Longrightarrow>
   map_of (net_process_alert_states (net_check_processes py t procs m)) p =
     map_of (net_process_alert_states m) p"
  by (induction procs arbitrary: m)
     (auto simp: Let_def case_prod_beta update_conv')

lemma net_check_processes_keeps:
  "p \<in> fst ` set (net_process_alert_states m) \<Longrightarrow>
   p \<in> fst ` set (net_process_alert_states (net_check_processes py t procs m))"
proof (induction procs arbitrary: m)
  case Nil
  then show ?case by simp
next
  case (Cons proc procs)
  obtain process_name bandwidth where proc: "proc = (process_name, bandwidth)" by (cases proc)
  from Cons.prems show ?case
    unfolding proc
    apply simp
    apply (rule Cons.IH)
    apply (simp add: Let_def case_prod_beta keys_update)
    done
qed

lemma net_check_processes_seen:
  "p \<in> fst ` set procs \<Longrightarrow>
   p \<in> fst ` set (net_process_alert_states (net_check_processes py t procs m))"
proof (induction procs arbitrary: m)
  case Nil
  then show ?case by simp
next
  case (Cons proc procs)
  obtain process_name bandwidth where proc: "proc = (process_name, bandwidth)" by (cases proc)
  show ?case
  proof (cases "process_name = p")
    case True
    then show ?thesis
      unfolding proc
      apply simp
      apply (rule net_check_processes_keeps)
      apply (simp add: Let_def case_prod_beta keys_update)
      done
  next
    case False
    then have "p \<in> fst ` set procs"
      using Cons.prems proc by auto
    then show ?thesis
      unfolding proc using Cons.IH by simp
  qed
qed

lemma net_process_pruning:
  assumes ne: "processes \<noteq> []"
    and d: "distinct (map fst (net_process_alert_states m))"
    and s: "map_of (net_process_alert_states m) p = Some states"
  shows "(map_of (net_process_alert_states
            (net_check_process_thresholds py (Some processes) t m)) p = None
           \<longleftrightarrow> p \<notin> fst ` set processes \<and> \<not> any_active states)
         \<and> (p \<notin> fst ` set processes \<longrightarrow> any_active states \<longrightarrow>
              map_of (net_process_alert_states
                (net_check_process_thresholds py (Some processes) t m)) p = Some states)"
proof -
  let ?m1 = "net_check_processes py t processes m"
  have d1: "distinct (map fst (net_process_alert_states ?m1))"
    using d by (rule net_check_processes_distinct)
  have res: "map_of (net_process_alert_states
        (net_check_process_thresholds py (Some processes) t m)) p =
     (case map_of (net_process_alert_states ?m1) p of
        None \<Rightarrow> None
      | Some sts \<Rightarrow>
          if p \<notin> set (map fst processes) \<and> \<not> any_active sts then None else Some sts)"
    using ne
    by (simp add: net_check_process_thresholds_def Let_def map_of_remove_unseen [OF d1])
  show ?thesis
  proof (cases "p \<in> fst ` set processes")
    case True
    then have "p \<in> fst ` set (net_process_alert_states ?m1)"
      by (rule net_check_processes_seen)
    then obtain sts where "map_of (net_process_alert_states ?m1) p = Some sts"
      by (metis domD dom_map_of_conv_image_fst)
    then show ?thesis using True res by simp
  next
    case False
    then have "map_of (net_process_alert_states ?m1) p = Some states"
      using s by (simp add: net_check_processes_unseen)
    then show ?thesis using False res by simp
  qed
qed

text \<open>
  C9 (as amended). On a check of the per-process thresholds whose snapshot is not empty, in
  the CPU monitor and in the network monitor alike, a tracked process is dropped from the
  tracking map if and only if it is absent from the snapshot and none of its states is
  active; an absent process with an active state keeps its states unchanged. On an empty
  snapshot, and when the metric source raises, the check returns before the clean-up and
  drops nothing.
\<close>

theorem process_pruning:
  "(processes \<noteq> [] \<longrightarrow> distinct (map fst (process_alert_states m)) \<longrightarrow>
      map_of (process_alert_states m) p = Some states \<longrightarrow>
      (map_of (process_alert_states (check_process_thresholds py (Some processes) t m)) p = None
         \<longleftrightarrow> p \<notin> set (seen_pids processes) \<and> \<not> any_active states)
      \<and> (p \<notin> set (seen_pids processes) \<longrightarrow> any_active states \<longrightarrow>
           map_of (process_alert_states (check_process_thresholds py (Some processes) t m)) p
             = Some states))
   \<and> process_alert_states (check_process_thresholds py (Some []) t m) = process_alert_states m
   \<and> process_alert_states (check_process_thresholds py None t m) = process_alert_states m
   \<and> (net_processes \<noteq> [] \<longrightarrow> distinct (map fst (net_process_alert_states nm)) \<longrightarrow>
      map_of (net_process_alert_states nm) process_name = Some net_states \<longrightarrow>
      (map_of (net_process_alert_states
          (net_check_process_thresholds py (Some net_processes) t nm)) process_name = None
         \<longleftrightarrow> process_name \<notin> fst ` set net_processes \<and> \<not> any_active net_states)
      \<and> (process_name \<notin> fst ` set net_processes \<longrightarrow> any_active net_states \<longrightarrow>
           map_of (net_process_alert_states
             (net_check_process_thresholds py (Some net_processes) t nm)) process_name
             = Some net_states))
   \<and> net_process_alert_states (net_check_process_thresholds py (Some []) t nm)
       = net_process_alert_states nm
   \<and> net_process_alert_states (net_check_process_thresholds py None t nm)
       = net_process_alert_states nm"
  using cpu_process_pruning [of processes m p states py t]
    net_process_pruning [of net_processes nm process_name net_states py t]
  by (simp add: net_check_process_thresholds_def)

text \<open>The theorem at a CPU monitor that tracks process 7 with an active alert, on a
  snapshot that holds process 8 only, and at a network monitor that tracks \<open>curl\<close> with an
  active alert, on a snapshot that holds \<open>ssh\<close> only: both are retained.\<close>

theorem process_pruning_witness:
  "\<forall>py.
     map_of (process_alert_states
         (check_process_thresholds py (Some [\<lparr>pid = Some 8, cpu_percent = PyFloat 1, command = ''x''\<rparr>]) 1000
            (cpu_monitor_init\<lparr>process_alert_states :=
               [(7, [(''process_cpu_high'',
                  (new_state (new_config (PyFloat 50) 120 WARNING PROCESS_CPU_USAGE_HIGH ''busy''))
                    \<lparr>exceeded_since := Some 800, last_alert_time := 920, is_active := True\<rparr>)])]\<rparr>))) 7
       = Some [(''process_cpu_high'',
           (new_state (new_config (PyFloat 50) 120 WARNING PROCESS_CPU_USAGE_HIGH ''busy''))
             \<lparr>exceeded_since := Some 800, last_alert_time := 920, is_active := True\<rparr>)]
     \<and> map_of (net_process_alert_states
         (net_check_process_thresholds py (Some [(''ssh'', PyInt 5)]) 1000
            (net_monitor_init\<lparr>net_process_alert_states :=
               [(''curl'', [(''process_bandwidth_high'',
                  (new_state (new_config (PyInt 10000000) 120 WARNING PROCESS_BANDWIDTH_HIGH ''busy''))
                    \<lparr>exceeded_since := Some 800, last_alert_time := 920, is_active := True\<rparr>)])]\<rparr>)))
         ''curl''
       = Some [(''process_bandwidth_high'',
           (new_state (new_config (PyInt 10000000) 120 WARNING PROCESS_BANDWIDTH_HIGH ''busy''))
             \<lparr>exceeded_since := Some 800, last_alert_time := 920, is_active := True\<rparr>)]"
proof
  fix py
  show "map_of (process_alert_states
         (check_process_thresholds py (Some [\<lparr>pid = Some 8, cpu_percent = PyFloat 1, command = ''x''\<rparr>]) 1000
            (cpu_monitor_init\<lparr>process_alert_states :=
               [(7, [(''process_cpu_high'',
                  (new_state (new_config (PyFloat 50) 120 WARNING PROCESS_CPU_USAGE_HIGH ''busy''))
                    \<lparr>exceeded_since := Some 800, last_alert_time := 920, is_active := True\<rparr>)])]\<rparr>))) 7
       = Some [(''process_cpu_high'',
           (new_state (new_config (PyFloat 50) 120 WARNING PROCESS_CPU_USAGE_HIGH ''busy''))
             \<lparr>exceeded_since := Some 800, last_alert_time := 920, is_active := True\<rparr>)]
     \<and> map_of (net_process_alert_states
         (net_check_process_thresholds py (Some [(''ssh'', PyInt 5)]) 1000
            (net_monitor_init\<lparr>net_process_alert_states :=
               [(''curl'', [(''process_bandwidth_high'',
                  (new_state (new_config (PyInt 10000000) 120 WARNING PROCESS_BANDWIDTH_HIGH ''busy''))
                    \<lparr>exceeded_since := Some 800, last_alert_time := 920, is_active := True\<rparr>)])]\<rparr>)))
         ''curl''
       = Some [(''process_bandwidth_high'',
           (new_state (new_config (PyInt 10000000) 120 WARNING PROCESS_BANDWIDTH_HIGH ''busy''))
             \<lparr>exceeded_since := Some 800, last_alert_time := 920, is_active := True\<rparr>)]"
    using process_pruning
      [where processes = "[\<lparr>pid = Some 8, cpu_percent = PyFloat 1, command = ''x''\<rparr>]"
         and m = "cpu_monitor_init\<lparr>process_alert_states :=
               [(7, [(''process_cpu_high'',
                  (new_state (new_config (PyFloat 50) 120 WARNING PROCESS_CPU_USAGE_HIGH ''busy''))
                    \<lparr>exceeded_since := Some 800, last_alert_time := 920, is_active := True\<rparr>)])]\<rparr>"
         and p = 7
         and states = "[(''process_cpu_high'',
           (new_state (new_config (PyFloat 50) 120 WARNING PROCESS_CPU_USAGE_HIGH ''busy''))
             \<lparr>exceeded_since := Some 800, last_alert_time := 920, is_active := True\<rparr>)]"
         and net_processes = "[(''ssh'', PyInt 5)]"
         and nm = "net_monitor_init\<lparr>net_process_alert_states :=
               [(''curl'', [(''process_bandwidth_high'',
                  (new_state (new_config (PyInt 10000000) 120 WARNING PROCESS_BANDWIDTH_HIGH ''busy''))
                    \<lparr>exceeded_since := Some 800, last_alert_time := 920, is_active := True\<rparr>)])]\<rparr>"
         and process_name = "''curl''"
         and net_states = "[(''process_bandwidth_high'',
           (new_state (new_config (PyInt 10000000) 120 WARNING PROCESS_BANDWIDTH_HIGH ''busy''))
             \<lparr>exceeded_since := Some 800, last_alert_time := 920, is_active := True\<rparr>)]"
         and t = 1000 and py = py]
    by (simp add: seen_pids_def any_active_def new_state_def)
qed

text \<open>C9 as stated fails on an empty snapshot: process 7, seen once with a low reading,
  is absent from the next (empty) snapshot and has no active state, and is still tracked.\<close>

theorem empty_snapshot_keeps_inactive_counterexample:
  "\<forall>py. map_option any_active
     (map_of (process_alert_states
        (check_process_thresholds py (Some []) 1005
           (check_process_thresholds py (Some [\<lparr>pid = Some 7, cpu_percent = PyFloat 1, command = ''x''\<rparr>]) 1000
              cpu_monitor_init))) 7) = Some False
   \<and> 7 \<notin> set (seen_pids [])"
  by (simp add: check_process_thresholds_def check_state_def cpu_monitor_init_def new_state_def
        new_config_def remove_unseen_def seen_pids_def any_active_def Let_def)

section \<open>The WiFi threshold and the sustained-load threshold\<close>

lemma check_wifi_without_state:
  "map_of (net_alert_states m) ''wifi_signal_low'' = None \<Longrightarrow> (check_wifi_thresholds py) r t m = m"
  by (simp add: check_wifi_thresholds_def check_threshold_def split: option.splits)

text \<open>
  C3, at the monitor as \<open>__init__\<close> and \<open>start\<close> leave it. \<open>_initialize_alert_states\<close> puts the
  state of \<open>wifi_signal_low\<close> (threshold -75, duration 300 s) into \<open>_wifi_alert_states\<close>,
  while \<open>_check_threshold\<close> looks its name up in \<open>_alert_states\<close> and returns when it is not
  there. Two checks with a connected link and a signal of -80 dBm, 1000 s apart, leave the
  monitor as it was: nothing is tracked and no alert is published.
\<close>

theorem wifi_signal_low_never_checked:
  "check_wifi_thresholds py (Some \<lparr>connected = True, signal_strength = PyInt (- 80)\<rparr>) 2000
     (check_wifi_thresholds py (Some \<lparr>connected = True, signal_strength = PyInt (- 80)\<rparr>) 1000
        (net_start [] net_monitor_init))
     = net_start [] net_monitor_init
   \<and> net_published (net_start [] net_monitor_init) = []
   \<and> map_option (\<lambda>s. (threshold (config s), duration_seconds (config s), is_active s))
        (map_of (wifi_alert_states (net_start [] net_monitor_init)) ''wifi_signal_low'')
       = Some (PyInt (- 75), 300, False)
   \<and> map_of (net_alert_states (net_start [] net_monitor_init)) ''wifi_signal_low'' = None"
  by (simp add: net_start_def net_initialize_alert_states_def net_monitor_init_def
        check_wifi_thresholds_def check_threshold_def new_state_def new_config_def)

text \<open>
  C6, at the CPU monitor. \<open>_check_cpu_thresholds\<close> runs its block on every state whose name
  starts with \<open>cpu_\<close>, \<open>cpu_usage_sustained\<close> included, with the instantaneous reading. After
  ten readings of 85 the sustained state has been exceeded since the first one; one
  reading of 10 stores 10 as its value and clears \<open>exceeded_since\<close>, although the mean of
  the history, which \<open>_check_sustained_load\<close> computes next, is 860/11, above the threshold
  of 70.
\<close>

theorem sustained_state_fed_instantaneous_reading:
  "map_option (\<lambda>s. (current_value s, exceeded_since s))
     (map_of (alert_states
        (fold (check_cpu_thresholds py (Some (PyFloat 85)))
           [1000, 1005, 1010, 1015, 1020, 1025, 1030, 1035, 1040, 1045]
           (start [] cpu_monitor_init))) ''cpu_usage_sustained'') = Some (PyFloat 85, Some 1000)
   \<and> map_option (\<lambda>s. (current_value s, exceeded_since s))
     (map_of (alert_states
        (check_cpu_thresholds py (Some (PyFloat 10)) 1050
          (fold (check_cpu_thresholds py (Some (PyFloat 85)))
             [1000, 1005, 1010, 1015, 1020, 1025, 1030, 1035, 1040, 1045]
             (start [] cpu_monitor_init)))) ''cpu_usage_sustained'') = Some (PyFloat 10, None)
   \<and> sustained_value 1050
        (cpu_history
          (check_cpu_thresholds py (Some (PyFloat 10)) 1050
            (fold (check_cpu_thresholds py (Some (PyFloat 85)))
               [1000, 1005, 1010, 1015, 1020, 1025, 1030, 1035, 1040, 1045]
               (start [] cpu_monitor_init)))) = PyFloat (860 / 11)"
  by (simp add: start_def initialize_alert_states_def cpu_monitor_init_def
        check_cpu_thresholds_def check_state_def new_state_def new_config_def
        sustained_value_def window_def average_def Let_def)

section \<open>Delivery of events by the dispatcher\<close>

lemma notify_observers_calls:
  "r \<in> set refs \<Longrightarrow> resolve r = Some update \<Longrightarrow>
   (case map_of filters r of None \<Rightarrow> True | Some types \<Rightarrow> event_type event \<in> set types) \<Longrightarrow>
   (r, event, update event) \<in> set (snd (notify_observers resolve filters event refs))"
  by (induction refs) (auto simp: Let_def case_prod_beta split: option.splits)

lemma notify_observers_dead:
  "r \<in> set (fst (notify_observers resolve filters event refs)) \<longleftrightarrow>
     r \<in> set refs \<and> resolve r = None"
  by (induction refs) (auto simp: Let_def case_prod_beta split: option.splits)

lemma map_of_filter_keys:
  "map_of (filter (\<lambda>(k, v). P k) xs) k = (if P k then map_of xs k else None)"
  by (induction xs) auto

lemma dispatch_event_calls:
  "snd (dispatch_event resolve event d) =
     snd (notify_observers resolve (event_filters d) event (observers d))"
  by (simp add: dispatch_event_def case_prod_beta)

lemma dispatch_event_observers:
  "resolve r = Some update \<Longrightarrow> r \<in> set (observers d) \<Longrightarrow>
   r \<in> set (observers (fst (dispatch_event resolve event d)))"
  by (simp add: dispatch_event_def case_prod_beta notify_observers_dead)

lemma dispatch_event_filters:
  "resolve r = Some update \<Longrightarrow>
   map_of (event_filters (fst (dispatch_event resolve event d))) r = map_of (event_filters d) r"
  by (simp add: dispatch_event_def case_prod_beta notify_observers_dead map_of_filter_keys)

lemma dispatch_event_running:
  "dispatcher_running (fst (dispatch_event resolve event d)) = dispatcher_running d"
  by (simp add: dispatch_event_def case_prod_beta)

text \<open>
  C8. While the dispatch worker runs, for every event in the queue and every observer that
  is alive and whose filter (if it has one) admits the event's type, \<open>_dispatch_loop\<close> calls
  that observer's \<open>update\<close> with the event. Nothing is assumed about the other observers or
  about the outcome of any call: an \<open>update\<close> that raises on this or on an earlier event
  neither skips the remaining observers nor ends the loop.
\<close>

theorem dispatch_isolation:
  assumes "dispatcher_running d"
    and "event \<in> set events"
    and "r \<in> set (observers d)"
    and "resolve r = Some update"
    and "case map_of (event_filters d) r of
           None \<Rightarrow> True | Some types \<Rightarrow> event_type event \<in> set types"
  shows "(r, event, update event) \<in> set (snd (dispatch_loop resolve (map Some events) d))"
  using assms
proof (induction events arbitrary: d)
  case Nil
  then show ?case by simp
next
  case (Cons e events)
  let ?d1 = "fst (dispatch_event resolve e d)"
  have run1: "dispatcher_running ?d1"
    using Cons.prems(1) by (simp add: dispatch_event_running)
  have obs1: "r \<in> set (observers ?d1)"
    using Cons.prems(3,4) by (rule dispatch_event_observers [rotated])
  have fil1: "map_of (event_filters ?d1) r = map_of (event_filters d) r"
    using Cons.prems(4) by (rule dispatch_event_filters)
  have loop: "snd (dispatch_loop resolve (map Some (e # events)) d) =
      snd (dispatch_event resolve e d) @ snd (dispatch_loop resolve (map Some events) ?d1)"
    using Cons.prems(1) by (simp add: Let_def case_prod_beta)
  show ?case
  proof (cases "event = e")
    case True
    have "(r, event, update event) \<in> set (snd (dispatch_event resolve e d))"
      unfolding dispatch_event_calls True
      using Cons.prems(3,4,5) True by (intro notify_observers_calls) auto
    then show ?thesis unfolding loop by simp
  next
    case False
    then have "event \<in> set events" using Cons.prems(2) by simp
    then have "(r, event, update event) \<in> set (snd (dispatch_loop resolve (map Some events) ?d1))"
      using run1 obs1 Cons.prems(4,5) fil1 by (intro Cons.IH) auto
    then show ?thesis unfolding loop by simp
  qed
qed

text \<open>The theorem with two observers, the first of which raises on every event: the
  second observer receives the second published event.\<close>

theorem dispatch_isolation_witness:
  "(2, \<lparr>event_type = THRESHOLD_EXCEEDED, timestamp = 7, source = ''b'', data = (None :: unit option),
        message = ''second''\<rparr>, Returned)
     \<in> set (snd (dispatch_loop
          (\<lambda>r. if r = 1 then Some (\<lambda>e. Raised) else if r = 2 then Some (\<lambda>e. Returned) else None)
          (map Some
            [\<lparr>event_type = THRESHOLD_EXCEEDED, timestamp = 5, source = ''a'',
               data = (None :: unit option), message = ''first''\<rparr>,
             \<lparr>event_type = THRESHOLD_EXCEEDED, timestamp = 7, source = ''b'',
               data = (None :: unit option), message = ''second''\<rparr>])
          \<lparr>observers = [1, 2], event_filters = [(2, [THRESHOLD_EXCEEDED])],
           dispatcher_running = True\<rparr>))"
  using dispatch_isolation
    [of "\<lparr>observers = [1, 2], event_filters = [(2, [THRESHOLD_EXCEEDED])],
           dispatcher_running = True\<rparr>"
        "\<lparr>event_type = THRESHOLD_EXCEEDED, timestamp = 7, source = ''b'',
               data = (None :: unit option), message = ''second''\<rparr>"
        "[\<lparr>event_type = THRESHOLD_EXCEEDED, timestamp = 5, source = ''a'',
               data = (None :: unit option), message = ''first''\<rparr>,
             \<lparr>event_type = THRESHOLD_EXCEEDED, timestamp = 7, source = ''b'',
               data = (None :: unit option), message = ''second''\<rparr>]"
        2
        "\<lambda>r. if r = 1 then Some (\<lambda>e. Raised) else if r = 2 then Some (\<lambda>e. Returned) else None"
        "\<lambda>e. Returned"]
  by simp

section \<open>The invariant of alert states\<close>

lemma check_state_ok: "state_ok (fst (check_state gen cfg ex t s))"
  by (simp add: check_state_def state_ok_def Let_def)

lemma new_state_ok: "state_ok (new_state cfg)"
  by (simp add: new_state_def state_ok_def)

lemma set_update_subset: "set (AList.update k v al) \<subseteq> insert (k, v) (set al)"
  by (induction al) auto

lemma states_ok_update:
  "states_ok al \<Longrightarrow> state_ok v \<Longrightarrow> states_ok (AList.update k v al)"
  using set_update_subset [of k v al] by (auto simp: states_ok_def)

lemma all_ok_update:
  "\<forall>(k, sts) \<in> set al. states_ok sts \<Longrightarrow> states_ok v \<Longrightarrow>
   \<forall>(k, sts) \<in> set (AList.update k' v al). states_ok sts"
  using set_update_subset [of k' v al] by auto

lemma states_ok_new: "states_ok (map (\<lambda>(name, cfg). (name, new_state cfg)) cfgs)"
  by (auto simp: states_ok_def new_state_ok)

lemma states_ok_fold_new:
  "states_ok al \<Longrightarrow> states_ok (fold (\<lambda>(name, cfg). AList.update name (new_state cfg)) cfgs al)"
  by (induction cfgs arbitrary: al) (auto simp: states_ok_update new_state_ok)

lemma check_each_ok:
  "states_ok states \<Longrightarrow> states_ok (fst (check_each sel gen v t states))"
  by (induction states)
     (auto simp: states_ok_def check_state_ok case_prod_beta Let_def)

lemma check_named_ok:
  "states_ok states \<Longrightarrow> states_ok (fst (check_named name gen v t states))"
  by (auto simp: check_named_def case_prod_beta Let_def states_ok_update check_state_ok
        split: option.splits)

lemma lookup_ok:
  "\<forall>(k, sts) \<in> set al. states_ok sts \<Longrightarrow> map_of al k = Some sts \<Longrightarrow> states_ok sts"
  by (auto dest: map_of_SomeD)


lemma initialize_core_thresholds_ok:
  "monitor_ok m \<Longrightarrow> monitor_ok (initialize_core_thresholds cid m)"
  by (auto simp: initialize_core_thresholds_def monitor_ok_def Let_def states_ok_def new_state_ok
        dest!: subsetD [OF set_update_subset])

lemma initialize_cores_ok: "monitor_ok m \<Longrightarrow> monitor_ok (initialize_cores cores m)"
  by (induction cores arbitrary: m)
     (auto simp: initialize_core_thresholds_ok split: option.splits)

lemma start_ok: "monitor_ok m \<Longrightarrow> monitor_ok (start cores m)"
proof -
  assume ok: "monitor_ok m"
  have "monitor_ok (m\<lparr>alert_states :=
            fold (\<lambda>(name, cfg). AList.update name (new_state cfg)) (thresholds m)
              (alert_states m)\<rparr>)"
    using ok by (simp add: monitor_ok_def states_ok_fold_new)
  then have "monitor_ok (initialize_alert_states cores m)"
    unfolding initialize_alert_states_def by (rule initialize_cores_ok)
  then show ?thesis
    using ok by (simp add: start_def monitor_ok_def)
qed

lemma set_threshold_ok: "monitor_ok m \<Longrightarrow> monitor_ok (set_threshold name th dur sev msg m)"
  by (simp add: set_threshold_def Let_def monitor_ok_def states_ok_update new_state_ok)

lemma check_cpu_thresholds_ok:
  "monitor_ok m \<Longrightarrow> monitor_ok (check_cpu_thresholds py reading t m)"
  using check_each_ok [of "alert_states m"]
  by (auto simp: check_cpu_thresholds_def monitor_ok_def Let_def case_prod_beta
        split: option.splits)

lemma core_update_ok:
  assumes "monitor_ok m" and "states_ok sts"
  shows "monitor_ok (m\<lparr>core_alert_states := AList.update cid sts (core_alert_states m), published := evs\<rparr>)"
proof -
  have "\<forall>(k, s) \<in> set (AList.update cid sts (core_alert_states m)). states_ok s"
    using assms by (intro all_ok_update) (simp_all add: monitor_ok_def)
  then show ?thesis
    using assms by (simp add: monitor_ok_def)
qed

lemma core_lookup_ok:
  "monitor_ok m \<Longrightarrow> map_of (core_alert_states m) cid = Some sts \<Longrightarrow> states_ok sts"
  by (auto simp: monitor_ok_def dest: map_of_SomeD)

lemma process_update_ok:
  assumes "monitor_ok m" and "states_ok sts"
  shows "monitor_ok (m\<lparr>process_alert_states := AList.update p sts (process_alert_states m), published := evs\<rparr>)"
proof -
  have "\<forall>(k, s) \<in> set (AList.update p sts (process_alert_states m)). states_ok s"
    using assms by (intro all_ok_update) (simp_all add: monitor_ok_def)
  then show ?thesis
    using assms by (simp add: monitor_ok_def)
qed

lemma process_lookup_ok:
  "monitor_ok m \<Longrightarrow> map_of (process_alert_states m) p = Some sts \<Longrightarrow> states_ok sts"
  by (auto simp: monitor_ok_def dest: map_of_SomeD)

lemma check_cores_ok: "monitor_ok m \<Longrightarrow> monitor_ok (check_cores py t cores m)"
proof (induction cores arbitrary: m)
  case Nil
  then show ?case by simp
next
  case (Cons core cores)
  from Cons.prems show ?case
    by (auto simp: Let_def case_prod_beta core_update_ok core_lookup_ok check_each_ok
          split: option.splits intro!: Cons.IH)
qed

lemma check_core_thresholds_ok:
  "monitor_ok m \<Longrightarrow> monitor_ok (check_core_thresholds py reading t m)"
  by (auto simp: check_core_thresholds_def check_cores_ok initialize_cores_ok
        split: option.splits)

lemma check_processes_ok: "monitor_ok m \<Longrightarrow> monitor_ok (check_processes py t procs m)"
proof (induction procs arbitrary: m)
  case Nil
  then show ?case by simp
next
  case (Cons proc procs)
  from Cons.prems show ?case
    by (auto simp: Let_def case_prod_beta process_update_ok process_lookup_ok check_each_ok
          states_ok_new split: option.splits intro!: Cons.IH)
qed

lemma check_process_thresholds_ok:
  "monitor_ok m \<Longrightarrow> monitor_ok (check_process_thresholds py reading t m)"
proof (cases reading)
  case None
  then show "monitor_ok m \<Longrightarrow> ?thesis" by (simp add: check_process_thresholds_def)
next
  case (Some processes)
  assume "monitor_ok m"
  then have "monitor_ok (check_processes py t processes m)" by (rule check_processes_ok)
  then show ?thesis
    using \<open>monitor_ok m\<close> Some
    by (auto simp: check_process_thresholds_def Let_def monitor_ok_def remove_unseen_def)
qed

lemma check_sustained_load_ok:
  "monitor_ok m \<Longrightarrow> monitor_ok (check_sustained_load py t m)"
  by (auto simp: check_sustained_load_def monitor_ok_def Let_def case_prod_beta
        states_ok_update check_state_ok split: option.splits)

lemma perform_ok: "monitor_ok m \<Longrightarrow> monitor_ok (perform py a m)"
  by (cases a)
     (simp_all add: start_ok set_threshold_ok check_cpu_thresholds_ok check_core_thresholds_ok
        check_process_thresholds_ok check_sustained_load_ok, simp add: stop_def monitor_ok_def)

lemma fold_perform_ok: "monitor_ok m \<Longrightarrow> monitor_ok (fold (perform py) acts m)"
  by (induction acts arbitrary: m) (simp_all add: perform_ok)

lemma cpu_monitor_init_ok: "monitor_ok cpu_monitor_init"
  by (simp add: monitor_ok_def cpu_monitor_init_def states_ok_def)

lemma net_states_update_ok:
  assumes "net_monitor_ok m" and "state_ok s"
  shows "net_monitor_ok (m\<lparr>net_alert_states := AList.update name s (net_alert_states m),
                            net_published := evs\<rparr>)"
  using assms by (simp add: net_monitor_ok_def states_ok_update)

lemma interface_update_ok:
  assumes "net_monitor_ok m" and "states_ok sts"
  shows "net_monitor_ok (m\<lparr>interface_alert_states :=
                              AList.update k sts (interface_alert_states m),
                            net_published := evs\<rparr>)"
proof -
  have "\<forall>(k, s) \<in> set (AList.update k sts (interface_alert_states m)). states_ok s"
    using assms by (intro all_ok_update) (simp_all add: net_monitor_ok_def)
  then show ?thesis
    using assms by (simp add: net_monitor_ok_def)
qed

lemma interface_lookup_ok:
  "net_monitor_ok m \<Longrightarrow> map_of (interface_alert_states m) k = Some sts \<Longrightarrow> states_ok sts"
  by (auto simp: net_monitor_ok_def dest: map_of_SomeD)

lemma net_process_update_ok:
  assumes "net_monitor_ok m" and "states_ok sts"
  shows "net_monitor_ok (m\<lparr>net_process_alert_states :=
                              AList.update k sts (net_process_alert_states m),
                            net_published := evs\<rparr>)"
proof -
  have "\<forall>(k, s) \<in> set (AList.update k sts (net_process_alert_states m)). states_ok s"
    using assms by (intro all_ok_update) (simp_all add: net_monitor_ok_def)
  then show ?thesis
    using assms by (simp add: net_monitor_ok_def)
qed

lemma net_process_lookup_ok:
  "net_monitor_ok m \<Longrightarrow> map_of (net_process_alert_states m) k = Some sts \<Longrightarrow> states_ok sts"
  by (auto simp: net_monitor_ok_def dest: map_of_SomeD)

lemma check_threshold_ok: "net_monitor_ok m \<Longrightarrow> net_monitor_ok (check_threshold py name v t m)"
  by (auto simp: check_threshold_def Let_def case_prod_beta net_states_update_ok check_state_ok
        split: option.splits)

lemma initialize_interface_thresholds_ok:
  "net_monitor_ok m \<Longrightarrow> net_monitor_ok (initialize_interface_thresholds name m)"
  by (auto simp: initialize_interface_thresholds_def net_monitor_ok_def Let_def states_ok_def
        new_state_ok dest!: subsetD [OF set_update_subset])

lemma initialize_interfaces_ok:
  "net_monitor_ok m \<Longrightarrow> net_monitor_ok (initialize_interfaces interfaces m)"
  by (induction interfaces arbitrary: m)
     (auto simp: initialize_interface_thresholds_ok split: option.splits)

lemma net_start_ok: "net_monitor_ok m \<Longrightarrow> net_monitor_ok (net_start interfaces m)"
proof -
  assume ok: "net_monitor_ok m"
  let ?m1 = "initialize_interfaces interfaces
     (m\<lparr>net_alert_states :=
          fold (\<lambda>(name, cfg). AList.update name (new_state cfg)) (net_thresholds m)
            (net_alert_states m)\<rparr>)"
  have "net_monitor_ok ?m1"
    using ok by (intro initialize_interfaces_ok) (simp add: net_monitor_ok_def states_ok_fold_new)
  then have "net_monitor_ok (net_initialize_alert_states interfaces m)"
    by (simp add: net_initialize_alert_states_def Let_def net_monitor_ok_def states_ok_fold_new)
  then show ?thesis
    using ok by (simp add: net_start_def net_monitor_ok_def)
qed

lemma net_set_threshold_ok:
  "net_monitor_ok m \<Longrightarrow> net_monitor_ok (net_set_threshold name th dur sev msg m)"
  by (simp add: net_set_threshold_def Let_def net_monitor_ok_def states_ok_update new_state_ok)

lemma check_bandwidth_thresholds_ok:
  "net_monitor_ok m \<Longrightarrow> net_monitor_ok (check_bandwidth_thresholds py reading t m)"
proof (cases reading)
  case None
  then show "net_monitor_ok m \<Longrightarrow> ?thesis" by (simp add: check_bandwidth_thresholds_def)
next
  case (Some r)
  assume ok: "net_monitor_ok m"
  have "net_monitor_ok (m\<lparr>bandwidth_history := h\<rparr>)" for h
    using ok by (simp add: net_monitor_ok_def)
  then show ?thesis
    using Some
    by (simp add: check_bandwidth_thresholds_def Let_def case_prod_beta check_threshold_ok)
qed

lemma check_wifi_thresholds_ok:
  "net_monitor_ok m \<Longrightarrow> net_monitor_ok (check_wifi_thresholds py reading t m)"
  by (simp add: check_wifi_thresholds_def check_threshold_ok split: option.splits)

lemma check_connection_thresholds_ok:
  "net_monitor_ok m \<Longrightarrow> net_monitor_ok (check_connection_thresholds py reading t m)"
  by (simp add: check_connection_thresholds_def check_threshold_ok split: option.splits)

lemma check_sustained_bandwidth_ok:
  assumes ok: "net_monitor_ok m"
  shows "net_monitor_ok (check_sustained_bandwidth py t m)"
proof -
  have "net_monitor_ok (m\<lparr>net_alert_states :=
          AList.update name (s\<lparr>current_value := v\<rparr>) (net_alert_states m)\<rparr>)"
    if "map_of (net_alert_states m) name = Some s" for name s v
  proof -
    have "state_ok s"
      using ok that by (auto simp: net_monitor_ok_def states_ok_def dest: map_of_SomeD)
    then have "state_ok (s\<lparr>current_value := v\<rparr>)" by (simp add: state_ok_def)
    then show ?thesis using ok by (simp add: net_monitor_ok_def states_ok_update)
  qed
  then show ?thesis
    using ok
    by (auto simp: check_sustained_bandwidth_def Let_def check_threshold_ok split: option.splits)
qed

lemma check_interfaces_ok:
  "net_monitor_ok m \<Longrightarrow> net_monitor_ok (check_interfaces py t interfaces m)"
proof (induction interfaces arbitrary: m)
  case Nil
  then show ?case by simp
next
  case (Cons interface interfaces)
  from Cons.prems show ?case
    by (auto simp: Let_def case_prod_beta interface_update_ok interface_lookup_ok check_named_ok
          split: option.splits intro!: Cons.IH)
qed

lemma check_interface_thresholds_ok:
  "net_monitor_ok m \<Longrightarrow> net_monitor_ok (check_interface_thresholds py reading t m)"
  by (auto simp: check_interface_thresholds_def check_interfaces_ok initialize_interfaces_ok
        split: option.splits)

lemma net_check_processes_ok:
  "net_monitor_ok m \<Longrightarrow> net_monitor_ok (net_check_processes py t procs m)"
proof (induction procs arbitrary: m)
  case Nil
  then show ?case by simp
next
  case (Cons proc procs)
  obtain process_name bandwidth where proc: "proc = (process_name, bandwidth)" by (cases proc)
  from Cons.prems show ?case
    unfolding proc
    by (auto simp: Let_def case_prod_beta net_process_update_ok net_process_lookup_ok
          check_named_ok states_ok_new split: option.splits intro!: Cons.IH)
qed

lemma net_check_process_thresholds_ok:
  "net_monitor_ok m \<Longrightarrow> net_monitor_ok (net_check_process_thresholds py reading t m)"
proof (cases reading)
  case None
  then show "net_monitor_ok m \<Longrightarrow> ?thesis" by (simp add: net_check_process_thresholds_def)
next
  case (Some processes)
  assume "net_monitor_ok m"
  then have "net_monitor_ok (net_check_processes py t processes m)" by (rule net_check_processes_ok)
  then show ?thesis
    using \<open>net_monitor_ok m\<close> Some
    by (auto simp: net_check_process_thresholds_def Let_def net_monitor_ok_def remove_unseen_def)
qed

lemma net_perform_ok: "net_monitor_ok m \<Longrightarrow> net_monitor_ok (net_perform py a m)"
  by (cases a)
     (simp_all add: net_start_ok net_set_threshold_ok check_bandwidth_thresholds_ok
        check_interface_thresholds_ok net_check_process_thresholds_ok check_wifi_thresholds_ok
        check_sustained_bandwidth_ok check_connection_thresholds_ok)

lemma fold_net_perform_ok: "net_monitor_ok m \<Longrightarrow> net_monitor_ok (fold (net_perform py) acts m)"
  by (induction acts arbitrary: m) (simp_all add: net_perform_ok)

lemma net_monitor_init_ok: "net_monitor_ok net_monitor_init"
  by (simp add: net_monitor_ok_def net_monitor_init_def states_ok_def)

text \<open>
  C4. In every state that a monitor reaches from its construction by any sequence of its
  operations (\<open>start\<close>, \<open>stop\<close>, \<open>set_threshold\<close> and the per-tick checks, with any readings and
  any clock), every tracked \<open>AlertState\<close> (global, per core, per process, per interface, WiFi)
  satisfies: \<open>is_active\<close> implies that \<open>exceeded_since\<close> is not \<open>None\<close>.
\<close>

theorem active_implies_exceeded_since:
  "monitor_ok (fold (perform py) acts cpu_monitor_init)
   \<and> net_monitor_ok (fold (net_perform py) net_acts net_monitor_init)"
  by (simp add: fold_perform_ok cpu_monitor_init_ok fold_net_perform_ok net_monitor_init_ok)

text \<open>The theorem on a run in which an alert becomes active: two readings of 95% CPU, 40 s
  apart, activate \<open>cpu_usage_very_high\<close> (duration 30 s), exceeded since the first.\<close>

theorem active_implies_exceeded_since_witness:
  "\<forall>py. (monitor_ok
      (fold (perform py)
         [Start [\<lparr>core_id = Some 0, usage = PyFloat 0\<rparr>], CheckCpu (Some (PyFloat 95)) 1000,
          CheckCpu (Some (PyFloat 95)) 1040]
         cpu_monitor_init)
    \<and> net_monitor_ok
      (fold (net_perform py) [NetStart [], CheckBandwidth (Some (PyInt 90000000, PyInt 0)) 1000]
         net_monitor_init))
   \<and> map_option (\<lambda>s. (is_active s, exceeded_since s))
        (map_of (alert_states
           (fold (perform py)
              [Start [\<lparr>core_id = Some 0, usage = PyFloat 0\<rparr>], CheckCpu (Some (PyFloat 95)) 1000,
               CheckCpu (Some (PyFloat 95)) 1040]
              cpu_monitor_init)) ''cpu_usage_very_high'') = Some (True, Some 1000)"
proof (intro allI, rule conjI)
  fix py
  show "monitor_ok
      (fold (perform py)
         [Start [\<lparr>core_id = Some 0, usage = PyFloat 0\<rparr>], CheckCpu (Some (PyFloat 95)) 1000,
          CheckCpu (Some (PyFloat 95)) 1040]
         cpu_monitor_init)
    \<and> net_monitor_ok
      (fold (net_perform py) [NetStart [], CheckBandwidth (Some (PyInt 90000000, PyInt 0)) 1000]
         net_monitor_init)"
    by (rule active_implies_exceeded_since)
  show "map_option (\<lambda>s. (is_active s, exceeded_since s))
        (map_of (alert_states
           (fold (perform py)
              [Start [\<lparr>core_id = Some 0, usage = PyFloat 0\<rparr>], CheckCpu (Some (PyFloat 95)) 1000,
               CheckCpu (Some (PyFloat 95)) 1040]
              cpu_monitor_init)) ''cpu_usage_very_high'') = Some (True, Some 1000)"
    by (simp add: start_def initialize_alert_states_def initialize_core_thresholds_def
          cpu_monitor_init_def check_cpu_thresholds_def check_state_def new_state_def
          new_config_def Let_def)
qed

section \<open>Alerts over a breach episode\<close>






























end
